theory Spec2Isabelle
  imports Complex_Main "HOL-Library.Multiset"
begin

section \<open>Mutual fund tax analyzer: the row parser and the period split\<close>

text \<open>
  The development follows \<^verbatim>\<open>mutual_fund_tax_analyzer.py\<close>: the field normalisers
  \<^verbatim>\<open>parse_date\<close> and \<^verbatim>\<open>parse_currency\<close>, the row scan of \<^verbatim>\<open>parse_excel_data\<close> and
  the split of \<^verbatim>\<open>analyze_transactions\<close>.

  Modelling decisions.
  \<^item> A Python \<^verbatim>\<open>str\<close> is the list of its code points (\<open>nat list\<close>); the literal
    \<^verbatim>\<open>'abc'\<close> is written \<open>cps ''abc''\<close>, the rupee sign is code point 8377.
  \<^item> The program observes a spreadsheet cell only through \<^verbatim>\<open>pd.notna(cell)\<close> and
    \<^verbatim>\<open>str(cell)\<close>. A cell is therefore \<open>None\<close> when \<^verbatim>\<open>pd.notna\<close> is false and
    \<open>Some s\<close> when it is true and \<^verbatim>\<open>str(cell)\<close> is \<open>s\<close>.
  \<^item> The built-ins \<^verbatim>\<open>int\<close>, \<^verbatim>\<open>float\<close> and \<^verbatim>\<open>datetime.strptime\<close> raise only
    \<^verbatim>\<open>ValueError\<close> on a string; they return an option, \<open>None\<close> standing for that
    exception. They follow CPython 3.11 with Unicode 14 character tables.
  \<^item> A float is represented by the exact rational its literal denotes, or by one of the
    special values; the rounding to binary64 and the sign of zero are not represented.
  \<^item> A \<^verbatim>\<open>datetime\<close> built by the program always has time 00:00:00, so it is
    represented by year, month and day.
  \<^item> A table of the table library is the list of its rows, a row filter is \<open>filter\<close>.
    Of the console output only the warning of \<^verbatim>\<open>parse_date\<close> is represented.
\<close>

subsection \<open>Strings and character classes\<close>

type_synonym pystr = "nat list"

definition cps :: "string \<Rightarrow> pystr" where
  "cps s = map of_char s"

text \<open>\<^verbatim>\<open>Py_UNICODE_ISSPACE\<close>: what \<^verbatim>\<open>str.strip()\<close>, \<^verbatim>\<open>str.isspace()\<close> and the regular
  expression class \<^verbatim>\<open>\s\<close> accept.\<close>

definition py_isspace :: "nat \<Rightarrow> bool" where
  "py_isspace c \<longleftrightarrow>
     (9 \<le> c \<and> c \<le> 13) \<or> (28 \<le> c \<and> c \<le> 32) \<or> c = 133 \<or> c = 160 \<or> c = 5760 \<or>
     (8192 \<le> c \<and> c \<le> 8202) \<or> c = 8232 \<or> c = 8233 \<or> c = 8239 \<or> c = 8287 \<or> c = 12288"

text \<open>The runs of non-ASCII decimal digits (general category Nd); inside a run the digit
  values repeat 0 to 9.\<close>

definition decimal_runs :: "(nat \<times> nat) list" where
  "decimal_runs =
    [(1632, 1641), (1776, 1785), (1984, 1993), (2406, 2415), (2534, 2543), (2662, 2671),
     (2790, 2799), (2918, 2927), (3046, 3055), (3174, 3183), (3302, 3311), (3430, 3439),
     (3558, 3567), (3664, 3673), (3792, 3801), (3872, 3881), (4160, 4169), (4240, 4249),
     (6112, 6121), (6160, 6169), (6470, 6479), (6608, 6617), (6784, 6793), (6800, 6809),
     (6992, 7001), (7088, 7097), (7232, 7241), (7248, 7257), (42528, 42537),
     (43216, 43225), (43264, 43273), (43472, 43481), (43504, 43513), (43600, 43609),
     (44016, 44025), (65296, 65305), (66720, 66729), (68912, 68921), (69734, 69743),
     (69872, 69881), (69942, 69951), (70096, 70105), (70384, 70393), (70736, 70745),
     (70864, 70873), (71248, 71257), (71360, 71369), (71472, 71481), (71904, 71913),
     (72016, 72025), (72784, 72793), (73040, 73049), (73120, 73129), (92768, 92777),
     (92864, 92873), (93008, 93017), (120782, 120831), (123200, 123209),
     (123632, 123641), (125264, 125273), (130032, 130041)]"

text \<open>The code points with a digit value that are not decimal digits (superscripts,
  circled digits and the like): \<^verbatim>\<open>str.isdigit()\<close> accepts them, \<^verbatim>\<open>int\<close> does not.\<close>

definition other_digit_ranges :: "(nat \<times> nat) list" where
  "other_digit_ranges =
    [(178, 179), (185, 185), (4969, 4977), (6618, 6618), (8304, 8304), (8308, 8313),
     (8320, 8329), (9312, 9320), (9332, 9340), (9352, 9360), (9450, 9450), (9461, 9469),
     (9471, 9471), (10102, 10110), (10112, 10120), (10122, 10130), (68160, 68163),
     (69216, 69224), (69714, 69722), (127232, 127242)]"

definition is_ascii_digit :: "nat \<Rightarrow> bool" where
  "is_ascii_digit c \<longleftrightarrow> 48 \<le> c \<and> c \<le> 57"

text \<open>\<^verbatim>\<open>Py_UNICODE_TODECIMAL\<close>: the value of a decimal digit.\<close>

definition py_decimal :: "nat \<Rightarrow> nat option" where
  "py_decimal c =
     (if c < 128 then (if is_ascii_digit c then Some (c - 48) else None)
      else case find (\<lambda>(lo, hi). lo \<le> c \<and> c \<le> hi) decimal_runs of
             None \<Rightarrow> None
           | Some (lo, hi) \<Rightarrow> Some ((c - lo) mod 10))"

definition py_isdecimal :: "nat \<Rightarrow> bool" where
  "py_isdecimal c \<longleftrightarrow> py_decimal c \<noteq> None"

definition py_isdigit_cp :: "nat \<Rightarrow> bool" where
  "py_isdigit_cp c \<longleftrightarrow>
     (if c < 128 then is_ascii_digit c
      else py_isdecimal c \<or> list_ex (\<lambda>(lo, hi). lo \<le> c \<and> c \<le> hi) other_digit_ranges)"

text \<open>\<^verbatim>\<open>str.isdigit()\<close>: non-empty and every character is a digit.\<close>

definition py_isdigit :: "pystr \<Rightarrow> bool" where
  "py_isdigit s \<longleftrightarrow> s \<noteq> [] \<and> list_all py_isdigit_cp s"

definition strip_where :: "(nat \<Rightarrow> bool) \<Rightarrow> pystr \<Rightarrow> pystr" where
  "strip_where P s = rev (dropWhile P (rev (dropWhile P s)))"

text \<open>\<^verbatim>\<open>s.strip()\<close> and \<^verbatim>\<open>s.strip(chars)\<close>.\<close>

definition py_strip :: "pystr \<Rightarrow> pystr" where
  "py_strip s = strip_where py_isspace s"

definition py_strip_chars :: "pystr \<Rightarrow> pystr \<Rightarrow> pystr" where
  "py_strip_chars chars s = strip_where (\<lambda>c. c \<in> set chars) s"

text \<open>\<^verbatim>\<open>s.replace(c, '')\<close> for a one-character \<open>c\<close>.\<close>

definition remove_char :: "nat \<Rightarrow> pystr \<Rightarrow> pystr" where
  "remove_char c s = filter (\<lambda>x. x \<noteq> c) s"

fun starts_with :: "pystr \<Rightarrow> pystr \<Rightarrow> bool" where
  "starts_with [] s = True"
| "starts_with (p # ps) [] = False"
| "starts_with (p # ps) (c # cs) = (p = c \<and> starts_with ps cs)"

text \<open>The first occurrence of a non-empty separator: the text before it and the text
  after it (\<^verbatim>\<open>str.partition\<close>).\<close>

fun find_sub :: "pystr \<Rightarrow> pystr \<Rightarrow> (pystr \<times> pystr) option" where
  "find_sub sep [] = None"
| "find_sub sep (c # cs) =
     (if starts_with sep (c # cs) then Some ([], drop (length sep) (c # cs))
      else case find_sub sep cs of
             None \<Rightarrow> None
           | Some (before, after) \<Rightarrow> Some (c # before, after))"

text \<open>\<^verbatim>\<open>sep in s\<close>, \<^verbatim>\<open>s.split(sep)[0]\<close> and \<^verbatim>\<open>s.split(sep)[1]\<close>, the last one for a
  string that contains the separator.\<close>

definition py_contains :: "pystr \<Rightarrow> pystr \<Rightarrow> bool" where
  "py_contains sep s \<longleftrightarrow> find_sub sep s \<noteq> None"

definition split_first :: "pystr \<Rightarrow> pystr \<Rightarrow> pystr" where
  "split_first sep s = (case find_sub sep s of None \<Rightarrow> s | Some (before, after) \<Rightarrow> before)"

definition split_second :: "pystr \<Rightarrow> pystr \<Rightarrow> pystr" where
  "split_second sep s =
     (case find_sub sep s of
        None \<Rightarrow> []
      | Some (before, after) \<Rightarrow> split_first sep after)"

text \<open>\<^verbatim>\<open>' '.join(parts)\<close>.\<close>

fun join_space :: "pystr list \<Rightarrow> pystr" where
  "join_space [] = []"
| "join_space [x] = x"
| "join_space (x # y # ys) = x @ [32] @ join_space (y # ys)"

subsection \<open>The built-ins int and float on strings\<close>

text \<open>\<^verbatim>\<open>_PyUnicode_TransformDecimalAndSpaceToASCII\<close>: both conversions first map the
  string to ASCII.\<close>

definition to_ascii :: "nat \<Rightarrow> nat" where
  "to_ascii c =
     (if c < 127 then c
      else if py_isspace c then 32
      else case py_decimal c of Some d \<Rightarrow> 48 + d | None \<Rightarrow> 63)"

text \<open>\<^verbatim>\<open>Py_ISSPACE\<close>, the ASCII white space the C parsers skip at both ends.\<close>

definition c_isspace :: "nat \<Rightarrow> bool" where
  "c_isspace c \<longleftrightarrow> (9 \<le> c \<and> c \<le> 13) \<or> c = 32"

text \<open>An underscore is accepted only between two ASCII digits.\<close>

fun underscores_ok :: "nat \<Rightarrow> pystr \<Rightarrow> bool" where
  "underscores_ok prev [] = (prev \<noteq> 95)"
| "underscores_ok prev (c # cs) =
     ((if c = 95 then is_ascii_digit prev else (prev = 95 \<longrightarrow> is_ascii_digit c))
      \<and> underscores_ok c cs)"

definition digits_value :: "pystr \<Rightarrow> nat" where
  "digits_value ds = foldl (\<lambda>a d. 10 * a + (d - 48)) 0 ds"

definition split_sign :: "pystr \<Rightarrow> bool \<times> pystr" where
  "split_sign s =
     (case s of
        [] \<Rightarrow> (False, [])
      | c # cs \<Rightarrow> if c = 45 then (True, cs) else if c = 43 then (False, cs) else (False, s))"

text \<open>\<^verbatim>\<open>int(s)\<close> in base 10, with the default limit of 4300 digits.\<close>

definition py_int :: "pystr \<Rightarrow> int option" where
  "py_int s =
     (let t = strip_where c_isspace (map to_ascii s);
          (neg, body) = split_sign t;
          ds = remove_char 95 body
      in if underscores_ok 0 body \<and> ds \<noteq> [] \<and> list_all is_ascii_digit ds \<and> length ds \<le> 4300
         then Some (if neg then - int (digits_value ds) else int (digits_value ds))
         else None)"

datatype pyfloat = Fin rat | PosInf | NegInf | NaN

definition ascii_lower :: "nat \<Rightarrow> nat" where
  "ascii_lower c = (if 65 \<le> c \<and> c \<le> 90 then c + 32 else c)"

text \<open>The exponent part of a float literal: empty, or \<^verbatim>\<open>e\<close>, an optional sign and at
  least one digit.\<close>

definition parse_exponent :: "pystr \<Rightarrow> int option" where
  "parse_exponent s =
     (case s of
        [] \<Rightarrow> Some 0
      | c # cs \<Rightarrow>
          if c = 101 \<or> c = 69 then
            (let (neg, ds) = split_sign cs
             in if ds \<noteq> [] \<and> list_all is_ascii_digit ds
                then Some (if neg then - int (digits_value ds) else int (digits_value ds))
                else None)
          else None)"

definition scale10 :: "nat \<Rightarrow> int \<Rightarrow> rat" where
  "scale10 m e = (if 0 \<le> e then of_nat m * 10 ^ nat e else of_nat m / 10 ^ nat (- e))"

text \<open>An unsigned float literal: \<^verbatim>\<open>inf\<close>, \<^verbatim>\<open>infinity\<close>, \<^verbatim>\<open>nan\<close> in any case, or
  digits with an optional point and exponent, at least one digit in the mantissa.\<close>

definition parse_float_body :: "pystr \<Rightarrow> pyfloat option" where
  "parse_float_body s =
     (let low = map ascii_lower s
      in if low = cps ''inf'' \<or> low = cps ''infinity'' then Some PosInf
         else if low = cps ''nan'' then Some NaN
         else
           (let ip = takeWhile is_ascii_digit s;
                r1 = dropWhile is_ascii_digit s;
                (fp, r2) = (case r1 of
                              [] \<Rightarrow> ([], [])
                            | c # cs \<Rightarrow> if c = 46
                                       then (takeWhile is_ascii_digit cs, dropWhile is_ascii_digit cs)
                                       else ([], r1))
            in if ip = [] \<and> fp = [] then None
               else case parse_exponent r2 of
                      None \<Rightarrow> None
                    | Some e \<Rightarrow> Some (Fin (scale10 (digits_value (ip @ fp)) (e - int (length fp))))))"

definition negate :: "pyfloat \<Rightarrow> pyfloat" where
  "negate x = (case x of Fin q \<Rightarrow> Fin (- q) | PosInf \<Rightarrow> NegInf | NegInf \<Rightarrow> PosInf | NaN \<Rightarrow> NaN)"

text \<open>\<^verbatim>\<open>float(s)\<close>.\<close>

definition py_float :: "pystr \<Rightarrow> pyfloat option" where
  "py_float s =
     (let t = strip_where c_isspace (map to_ascii s)
      in if \<not> underscores_ok 0 t then None
         else
           (let (neg, body) = split_sign (remove_char 95 t)
            in case parse_float_body body of
                 None \<Rightarrow> None
               | Some x \<Rightarrow> Some (if neg then negate x else x)))"

subsection \<open>Dates and datetime.strptime\<close>

record datetime =
  dt_year :: nat
  dt_month :: nat
  dt_day :: nat

definition is_leap :: "nat \<Rightarrow> bool" where
  "is_leap y \<longleftrightarrow> y mod 4 = 0 \<and> (y mod 100 \<noteq> 0 \<or> y mod 400 = 0)"

definition days_in_month :: "nat \<Rightarrow> nat \<Rightarrow> nat" where
  "days_in_month y m =
     (if m = 2 then (if is_leap y then 29 else 28)
      else if m = 4 \<or> m = 6 \<or> m = 9 \<or> m = 11 then 30 else 31)"

text \<open>The constructor \<^verbatim>\<open>datetime(y, m, d)\<close>; \<open>None\<close> is its \<^verbatim>\<open>ValueError\<close>.\<close>

definition make_datetime :: "nat \<Rightarrow> nat \<Rightarrow> nat \<Rightarrow> datetime option" where
  "make_datetime y m d =
     (if 1 \<le> y \<and> y \<le> 9999 \<and> 1 \<le> m \<and> m \<le> 12 \<and> 1 \<le> d \<and> d \<le> days_in_month y m
      then Some \<lparr>dt_year = y, dt_month = m, dt_day = d\<rparr>
      else None)"

text \<open>The comparisons \<^verbatim>\<open><\<close> and \<^verbatim>\<open>>=\<close> of two datetimes.\<close>

definition dt_less :: "datetime \<Rightarrow> datetime \<Rightarrow> bool" where
  "dt_less a b \<longleftrightarrow>
     dt_year a < dt_year b \<or>
     (dt_year a = dt_year b \<and>
       (dt_month a < dt_month b \<or> (dt_month a = dt_month b \<and> dt_day a < dt_day b)))"

definition dt_ge :: "datetime \<Rightarrow> datetime \<Rightarrow> bool" where
  "dt_ge a b \<longleftrightarrow>
     dt_year a > dt_year b \<or>
     (dt_year a = dt_year b \<and>
       (dt_month a > dt_month b \<or> (dt_month a = dt_month b \<and> dt_day a \<ge> dt_day b)))"

text \<open>A format string is a sequence of directives, literal characters and runs of white
  space; \<^verbatim>\<open>_strptime.TimeRE.pattern\<close> turns each run of white space into \<^verbatim>\<open>\s+\<close>.\<close>

datatype directive = Dir_b | Dir_B | Dir_d | Dir_m | Dir_Y

datatype fmt_item = Directive directive | Literal nat | Spaces

text \<open>The month names of the C locale. \<^verbatim>\<open>TimeRE\<close> lists the alternatives of \<^verbatim>\<open>%B\<close>
  longest first, names of equal length in calendar order.\<close>

definition a_month :: "pystr list" where
  "a_month = map cps [''jan'', ''feb'', ''mar'', ''apr'', ''may'', ''jun'',
                      ''jul'', ''aug'', ''sep'', ''oct'', ''nov'', ''dec'']"

definition f_month :: "pystr list" where
  "f_month = map cps [''january'', ''february'', ''march'', ''april'', ''may'', ''june'',
                      ''july'', ''august'', ''september'', ''october'', ''november'',
                      ''december'']"

definition f_month_longest_first :: "pystr list" where
  "f_month_longest_first =
     map cps [''september'', ''february'', ''november'', ''december'', ''january'',
              ''october'', ''august'', ''march'', ''april'', ''june'', ''july'', ''may'']"

text \<open>A regular expression is modelled by the list of its matches at the start of the
  input, in the order the backtracking matcher tries them: the matched text and the rest.
  Matching ignores case; of the letters of the month names only ASCII letters are
  accepted here, since a match through another letter (such as U+017F for \<^verbatim>\<open>s\<close>) makes
  \<^verbatim>\<open>_strptime\<close> raise \<^verbatim>\<open>ValueError\<close> when it looks the lowered name up.\<close>

fun names_re :: "pystr list \<Rightarrow> pystr \<Rightarrow> (pystr \<times> pystr) list" where
  "names_re [] s = []"
| "names_re (n # ns) s =
     (if length n \<le> length s \<and> map ascii_lower (take (length n) s) = n
      then [(take (length n) s, drop (length n) s)] else [])
     @ names_re ns s"

definition one_char :: "(nat \<Rightarrow> bool) \<Rightarrow> pystr \<Rightarrow> (pystr \<times> pystr) list" where
  "one_char P s = (case s of c # r \<Rightarrow> if P c then [([c], r)] else [] | [] \<Rightarrow> [])"

definition two_chars :: "(nat \<Rightarrow> bool) \<Rightarrow> (nat \<Rightarrow> bool) \<Rightarrow> pystr \<Rightarrow> (pystr \<times> pystr) list" where
  "two_chars P Q s =
     (case s of c # d # r \<Rightarrow> if P c \<and> Q d then [([c, d], r)] else [] | _ \<Rightarrow> [])"

definition in_range :: "nat \<Rightarrow> nat \<Rightarrow> nat \<Rightarrow> bool" where
  "in_range lo hi c \<longleftrightarrow> lo \<le> c \<and> c \<le> hi"

text \<open>The expressions of the directives:
  \<^verbatim>\<open>%d\<close> is \<^verbatim>\<open>3[0-1]|[1-2]\d|0[1-9]|[1-9]| [1-9]\<close>,
  \<^verbatim>\<open>%m\<close> is \<^verbatim>\<open>1[0-2]|0[1-9]|[1-9]\<close>, \<^verbatim>\<open>%Y\<close> is \<^verbatim>\<open>\d\d\d\d\<close>.\<close>

definition directive_re :: "directive \<Rightarrow> pystr \<Rightarrow> (pystr \<times> pystr) list" where
  "directive_re d s =
     (case d of
        Dir_b \<Rightarrow> names_re a_month s
      | Dir_B \<Rightarrow> names_re f_month_longest_first s
      | Dir_d \<Rightarrow> two_chars (\<lambda>c. c = 51) (in_range 48 49) s
               @ two_chars (in_range 49 50) py_isdecimal s
               @ two_chars (\<lambda>c. c = 48) (in_range 49 57) s
               @ one_char (in_range 49 57) s
               @ two_chars (\<lambda>c. c = 32) (in_range 49 57) s
      | Dir_m \<Rightarrow> two_chars (\<lambda>c. c = 49) (in_range 48 50) s
               @ two_chars (\<lambda>c. c = 48) (in_range 49 57) s
               @ one_char (in_range 49 57) s
      | Dir_Y \<Rightarrow> (if 4 \<le> length s \<and> list_all py_isdecimal (take 4 s)
                 then [(take 4 s, drop 4 s)] else []))"

type_synonym groups = "(directive \<times> pystr) list"

text \<open>The matches of a whole format; \<^verbatim>\<open>\s+\<close> is greedy, so it gives the longest run of
  white space first.\<close>

fun match_items :: "fmt_item list \<Rightarrow> pystr \<Rightarrow> (groups \<times> pystr) list" where
  "match_items [] s = [([], s)]"
| "match_items (Directive d # items) s =
     concat (map (\<lambda>(m, r). map (\<lambda>(g, r'). ((d, m) # g, r')) (match_items items r))
                 (directive_re d s))"
| "match_items (Literal c # items) s =
     (case s of [] \<Rightarrow> [] | x # r \<Rightarrow> if x = c then match_items items r else [])"
| "match_items (Spaces # items) s =
     concat (map (\<lambda>k. match_items items (drop k s))
                 (rev [1 ..< Suc (length (takeWhile py_isspace s))]))"

fun index_of :: "'a \<Rightarrow> 'a list \<Rightarrow> nat option" where
  "index_of x [] = None"
| "index_of x (y # ys) = (if x = y then Some 0 else map_option Suc (index_of x ys))"

definition group_int :: "groups \<Rightarrow> directive \<Rightarrow> nat \<Rightarrow> nat option" where
  "group_int g d dflt =
     (case map_of g d of
        None \<Rightarrow> Some dflt
      | Some t \<Rightarrow> map_option nat (py_int t))"

definition group_month :: "groups \<Rightarrow> nat option" where
  "group_month g =
     (case map_of g Dir_m of
        Some t \<Rightarrow> map_option nat (py_int t)
      | None \<Rightarrow>
          (case map_of g Dir_B of
             Some t \<Rightarrow> map_option Suc (index_of (map ascii_lower t) f_month)
           | None \<Rightarrow>
               (case map_of g Dir_b of
                  Some t \<Rightarrow> map_option Suc (index_of (map ascii_lower t) a_month)
                | None \<Rightarrow> Some 1)))"

text \<open>\<^verbatim>\<open>datetime.strptime(s, fmt)\<close>: the first match of the expression must use the whole
  string; the fields are converted and the date is built. A missing field takes the
  default of \<^verbatim>\<open>_strptime\<close> (year 1900, month 1, day 1); the five formats of the program
  name all three.\<close>

definition strptime :: "pystr \<Rightarrow> fmt_item list \<Rightarrow> datetime option" where
  "strptime s fmt =
     (case match_items fmt s of
        [] \<Rightarrow> None
      | (g, rest) # _ \<Rightarrow>
          if rest \<noteq> [] then None
          else
            (case group_int g Dir_Y 1900 of
               None \<Rightarrow> None
             | Some y \<Rightarrow>
                 (case group_month g of
                    None \<Rightarrow> None
                  | Some m \<Rightarrow>
                      (case group_int g Dir_d 1 of
                         None \<Rightarrow> None
                       | Some d \<Rightarrow> make_datetime y m d))))"

subsection \<open>The field normalisers\<close>

text \<open>The list \<^verbatim>\<open>formats\<close> of \<^verbatim>\<open>parse_date\<close>, in its order:
  \<^verbatim>\<open>"%b %d, %Y"\<close>, \<^verbatim>\<open>"%B %d, %Y"\<close>, \<^verbatim>\<open>"%d/%m/%Y"\<close>, \<^verbatim>\<open>"%Y-%m-%d"\<close>, \<^verbatim>\<open>"%d-%m-%Y"\<close>.\<close>

definition fmt_abbrev :: "fmt_item list" where
  "fmt_abbrev = [Directive Dir_b, Spaces, Directive Dir_d, Literal 44, Spaces, Directive Dir_Y]"

definition fmt_full :: "fmt_item list" where
  "fmt_full = [Directive Dir_B, Spaces, Directive Dir_d, Literal 44, Spaces, Directive Dir_Y]"

definition fmt_slash :: "fmt_item list" where
  "fmt_slash = [Directive Dir_d, Literal 47, Directive Dir_m, Literal 47, Directive Dir_Y]"

definition fmt_iso :: "fmt_item list" where
  "fmt_iso = [Directive Dir_Y, Literal 45, Directive Dir_m, Literal 45, Directive Dir_d]"

definition fmt_hyphen :: "fmt_item list" where
  "fmt_hyphen = [Directive Dir_d, Literal 45, Directive Dir_m, Literal 45, Directive Dir_Y]"

definition formats :: "fmt_item list list" where
  "formats = [fmt_abbrev, fmt_full, fmt_slash, fmt_iso, fmt_hyphen]"

text \<open>The loop over the formats: the first one that does not raise gives the result.\<close>

fun try_formats :: "pystr \<Rightarrow> fmt_item list list \<Rightarrow> datetime option" where
  "try_formats s [] = None"
| "try_formats s (fmt # fmts) =
     (case strptime s fmt of Some d \<Rightarrow> Some d | None \<Rightarrow> try_formats s fmts)"

definition warning_line :: "pystr \<Rightarrow> pystr" where
  "warning_line s = cps ''Warning: Could not parse date '' @ [39] @ s @ [39]"

text \<open>\<^verbatim>\<open>parse_date\<close> with what it prints: the result and the lines written to the
  console.\<close>

definition parse_date_io :: "pystr \<Rightarrow> datetime option \<times> pystr list" where
  "parse_date_io date_str =
     (if date_str = [] \<or> py_strip date_str = cps ''-'' then (None, [])
      else
        (let s = py_strip_chars [34] (py_strip date_str)
         in case try_formats s formats of
              Some d \<Rightarrow> (Some d, [])
            | None \<Rightarrow> (None, [warning_line s])))"

definition parse_date :: "pystr \<Rightarrow> datetime option" where
  "parse_date date_str = fst (parse_date_io date_str)"

text \<open>\<^verbatim>\<open>parse_currency\<close>; 8377 is the rupee sign, 44 the comma, 34 the double quote.\<close>

definition parse_currency :: "pystr \<Rightarrow> pyfloat" where
  "parse_currency currency_str =
     (if currency_str = [] \<or> py_strip currency_str = cps ''-'' \<or> py_strip currency_str = []
      then Fin 0
      else
        (let cleaned = py_strip (remove_char 34 (remove_char 44 (remove_char 8377 currency_str)))
         in case py_float cleaned of Some v \<Rightarrow> v | None \<Rightarrow> Fin 0))"

subsection \<open>Rows, records and the scan state\<close>

datatype error = ValueError | IndexError

type_synonym cell = "pystr option"

type_synonym row = "cell list"

text \<open>\<^verbatim>\<open>row.iloc[i]\<close>.\<close>

definition iloc :: "row \<Rightarrow> nat \<Rightarrow> error + cell" where
  "iloc r i = (if i < length r then Inr (r ! i) else Inl IndexError)"

record transaction =
  fund_name :: "pystr option"
  folio_number :: "pystr option"
  transaction_number :: int
  units :: pyfloat
  purchase_date :: "datetime option"
  purchase_value :: pyfloat
  purchase_nav :: pyfloat
  redemption_date :: "datetime option"
  redemption_value :: pyfloat
  redemption_nav :: pyfloat
  stcg :: pyfloat
  ltcg :: pyfloat

record parse_state =
  current_fund :: "pystr option"
  current_folio :: "pystr option"
  transactions :: "transaction list"

fun notna_strs :: "row \<Rightarrow> pystr list" where
  "notna_strs [] = []"
| "notna_strs (None # cs) = notna_strs cs"
| "notna_strs (Some s # cs) = s # notna_strs cs"

text \<open>\<^verbatim>\<open>' '.join([str(val) for val in row.values if pd.notna(val)])\<close>.\<close>

definition row_str :: "row \<Rightarrow> pystr" where
  "row_str r = join_space (notna_strs r)"

text \<open>The two header tests of the loop body.\<close>

definition is_fund_header :: "row \<Rightarrow> bool" where
  "is_fund_header r \<longleftrightarrow>
     py_contains (cps ''[ISIN:'') (row_str r) \<and> py_contains (cps ''] ('') (row_str r)"

definition is_folio_header :: "row \<Rightarrow> bool" where
  "is_folio_header r \<longleftrightarrow> py_contains (cps ''Folio No:'') (row_str r)"

subsection \<open>The body of the inner try block, statement by statement\<close>

text \<open>\<^verbatim>\<open>first_cell = row.iloc[0]\<close>, the digit test and \<^verbatim>\<open>int(str(first_cell).strip())\<close>;
  \<open>Inr None\<close> when the test fails and the body does nothing.\<close>

definition first_cell_number :: "row \<Rightarrow> error + int option" where
  "first_cell_number r =
     (case iloc r 0 of
        Inl e \<Rightarrow> Inl e
      | Inr None \<Rightarrow> Inr None
      | Inr (Some s) \<Rightarrow>
          if py_isdigit (py_strip s)
          then (case py_int (py_strip s) of None \<Rightarrow> Inl ValueError | Some n \<Rightarrow> Inr (Some n))
          else Inr None)"

text \<open>\<^verbatim>\<open>units = float(str(row.iloc[1]).replace(',', '')) if pd.notna(row.iloc[1]) and
  str(row.iloc[1]).strip() != '' else 0\<close>.\<close>

definition units_field :: "row \<Rightarrow> error + pyfloat" where
  "units_field r =
     (case iloc r 1 of
        Inl e \<Rightarrow> Inl e
      | Inr None \<Rightarrow> Inr (Fin 0)
      | Inr (Some s) \<Rightarrow>
          if py_strip s \<noteq> []
          then (case py_float (remove_char 44 s) of None \<Rightarrow> Inl ValueError | Some v \<Rightarrow> Inr v)
          else Inr (Fin 0))"

text \<open>\<^verbatim>\<open>purchase_date_str\<close> and \<^verbatim>\<open>purchase_date\<close>.\<close>

definition purchase_date_field :: "row \<Rightarrow> error + datetime option" where
  "purchase_date_field r =
     (case iloc r 2 of
        Inl e \<Rightarrow> Inl e
      | Inr c \<Rightarrow>
          (let purchase_date_str = (case c of Some s \<Rightarrow> py_strip s | None \<Rightarrow> [])
           in Inr (if purchase_date_str \<noteq> [] \<and> purchase_date_str \<noteq> cps ''nan''
                   then parse_date purchase_date_str else None)))"

text \<open>\<^verbatim>\<open>self.parse_currency(str(row.iloc[i])) if len(row) > i and pd.notna(row.iloc[i])
  else 0\<close>, for columns 3, 9, 11 and 12.\<close>

definition currency_field :: "row \<Rightarrow> nat \<Rightarrow> pyfloat" where
  "currency_field r i =
     (if i < length r
      then (case r ! i of None \<Rightarrow> Fin 0 | Some s \<Rightarrow> parse_currency s)
      else Fin 0)"

text \<open>\<^verbatim>\<open>float(str(row.iloc[i])) if len(row) > i and pd.notna(row.iloc[i]) and
  str(row.iloc[i]).strip() != '' else 0\<close>, for columns 4 and 10.\<close>

definition nav_field :: "row \<Rightarrow> nat \<Rightarrow> error + pyfloat" where
  "nav_field r i =
     (if i < length r
      then (case r ! i of
              None \<Rightarrow> Inr (Fin 0)
            | Some s \<Rightarrow>
                if py_strip s \<noteq> []
                then (case py_float s of None \<Rightarrow> Inl ValueError | Some v \<Rightarrow> Inr v)
                else Inr (Fin 0))
      else Inr (Fin 0))"

text \<open>\<^verbatim>\<open>redemption_date\<close>: \<open>None\<close> unless column 8 is present and not blank.\<close>

definition redemption_date_field :: "row \<Rightarrow> datetime option" where
  "redemption_date_field r =
     (if 8 < length r
      then (case r ! 8 of
              None \<Rightarrow> None
            | Some s \<Rightarrow> if py_strip s \<noteq> [] then parse_date (py_strip s) else None)
      else None)"

text \<open>The whole body: \<open>Inl e\<close> when it raises \<open>e\<close>, \<open>Inr None\<close> when it ends without a
  record (the digit test fails, or \<^verbatim>\<open>continue\<close> for a missing purchase date),
  \<open>Inr (Some t)\<close> when it appends \<open>t\<close>.\<close>

definition build_transaction :: "parse_state \<Rightarrow> row \<Rightarrow> error + transaction option" where
  "build_transaction st r =
     (case first_cell_number r of
        Inl e \<Rightarrow> Inl e
      | Inr None \<Rightarrow> Inr None
      | Inr (Some transaction_num) \<Rightarrow>
     (case units_field r of
        Inl e \<Rightarrow> Inl e
      | Inr u \<Rightarrow>
     (case purchase_date_field r of
        Inl e \<Rightarrow> Inl e
      | Inr None \<Rightarrow> Inr None
      | Inr (Some pd) \<Rightarrow>
     (case nav_field r 4 of
        Inl e \<Rightarrow> Inl e
      | Inr pnav \<Rightarrow>
     (case nav_field r 10 of
        Inl e \<Rightarrow> Inl e
      | Inr rnav \<Rightarrow>
          Inr (Some \<lparr>fund_name = current_fund st,
                     folio_number = current_folio st,
                     transaction_number = transaction_num,
                     units = u,
                     purchase_date = Some pd,
                     purchase_value = currency_field r 3,
                     purchase_nav = pnav,
                     redemption_date = redemption_date_field r,
                     redemption_value = currency_field r 9,
                     redemption_nav = rnav,
                     stcg = currency_field r 11,
                     ltcg = currency_field r 12\<rparr>))))))"

text \<open>The rows that reach the record builder: neither header test holds, and the first
  cell is present and, stripped, all digits.\<close>

definition is_transaction_data :: "row \<Rightarrow> bool" where
  "is_transaction_data r \<longleftrightarrow>
     \<not> is_fund_header r \<and> \<not> is_folio_header r \<and>
     (case iloc r 0 of Inr (Some s) \<Rightarrow> py_isdigit (py_strip s) | _ \<Rightarrow> False)"

subsection \<open>The scan\<close>

text \<open>One iteration of the loop of \<^verbatim>\<open>parse_excel_data\<close>. The handler
  \<^verbatim>\<open>except (ValueError, IndexError)\<close> catches both errors of the body and goes on to the
  next row.\<close>

definition process_row :: "parse_state \<Rightarrow> row \<Rightarrow> parse_state" where
  "process_row st r =
     (if is_fund_header r
      then st\<lparr>current_fund := Some (py_strip (split_first (cps ''[ISIN:'') (row_str r)))\<rparr>
      else if is_folio_header r
      then st\<lparr>current_folio := Some (py_strip (split_second (cps ''Folio No:'') (row_str r)))\<rparr>
      else (case build_transaction st r of
              Inr (Some t) \<Rightarrow> st\<lparr>transactions := transactions st @ [t]\<rparr>
            | Inr None \<Rightarrow> st
            | Inl ValueError \<Rightarrow> st
            | Inl IndexError \<Rightarrow> st))"

definition initial_state :: parse_state where
  "initial_state = \<lparr>current_fund = None, current_folio = None, transactions = []\<rparr>"

definition scan_rows :: "parse_state \<Rightarrow> row list \<Rightarrow> parse_state" where
  "scan_rows st rows = foldl process_row st rows"

text \<open>\<^verbatim>\<open>parse_excel_data\<close>: \<open>None\<close> when no record was built, else the records in row
  order.\<close>

definition parse_excel_data :: "row list \<Rightarrow> transaction list option" where
  "parse_excel_data rows =
     (let st = scan_rows initial_state rows
      in if transactions st = [] then None else Some (transactions st))"

subsection \<open>The split at the tax change date\<close>

definition TAX_CHANGE_DATE :: datetime where
  "TAX_CHANGE_DATE = \<lparr>dt_year = 2024, dt_month = 7, dt_day = 23\<rparr>"

definition valid_transactions :: "transaction list \<Rightarrow> transaction list" where
  "valid_transactions df = filter (\<lambda>t. purchase_date t \<noteq> None) df"

definition redeemed_transactions :: "transaction list \<Rightarrow> transaction list" where
  "redeemed_transactions df = filter (\<lambda>t. redemption_date t \<noteq> None) (valid_transactions df)"

text \<open>The two row filters; a comparison with a missing date is false.\<close>

definition redeemed_before :: "transaction \<Rightarrow> bool" where
  "redeemed_before t =
     (case redemption_date t of None \<Rightarrow> False | Some d \<Rightarrow> dt_less d TAX_CHANGE_DATE)"

definition redeemed_from :: "transaction \<Rightarrow> bool" where
  "redeemed_from t =
     (case redemption_date t of None \<Rightarrow> False | Some d \<Rightarrow> dt_ge d TAX_CHANGE_DATE)"

datatype analysis_failure = NoData | NoValidTransactions | NoRedeemedTransactions

text \<open>\<^verbatim>\<open>analyze_transactions\<close> on the result of the parser: the failure for which it
  returns \<^verbatim>\<open>False\<close>, or the pair \<^verbatim>\<open>(before_july_23, after_july_23)\<close>.\<close>

definition analyze_transactions ::
  "transaction list option \<Rightarrow> analysis_failure + transaction list \<times> transaction list" where
  "analyze_transactions parsed =
     (case parsed of
        None \<Rightarrow> Inl NoData
      | Some df \<Rightarrow>
          if valid_transactions df = [] then Inl NoValidTransactions
          else if redeemed_transactions df = [] then Inl NoRedeemedTransactions
          else Inr (filter redeemed_before (redeemed_transactions df),
                    filter redeemed_from (redeemed_transactions df)))"

subsection \<open>The reports\<close>

text \<open>The reports read the two period tables only. The column sum of the table library
  and the float addition are parameters \<open>colsum\<close> and \<open>add\<close>.\<close>

record 'a summary_report =
  transactions_count :: "nat list"
  total_purchase_value :: "'a list"
  total_redemption_value :: "'a list"
  total_stcg :: "'a list"
  total_ltcg :: "'a list"

definition three_rows ::
  "('a \<Rightarrow> 'a \<Rightarrow> 'a) \<Rightarrow> (transaction list \<Rightarrow> 'a) \<Rightarrow> transaction list \<Rightarrow> transaction list \<Rightarrow> 'a list" where
  "three_rows add f before after = [f before, f after, add (f before) (f after)]"

definition generate_summary_report ::
  "(pyfloat list \<Rightarrow> 'a) \<Rightarrow> ('a \<Rightarrow> 'a \<Rightarrow> 'a) \<Rightarrow> transaction list \<Rightarrow> transaction list
     \<Rightarrow> 'a summary_report" where
  "generate_summary_report colsum add before after =
     \<lparr>transactions_count = three_rows (+) length before after,
      total_purchase_value = three_rows add (\<lambda>p. colsum (map purchase_value p)) before after,
      total_redemption_value = three_rows add (\<lambda>p. colsum (map redemption_value p)) before after,
      total_stcg = three_rows add (\<lambda>p. colsum (map stcg p)) before after,
      total_ltcg = three_rows add (\<lambda>p. colsum (map ltcg p)) before after\<rparr>"

record 'a fund_row =
  number_of_transactions :: nat
  fund_purchase_value :: 'a
  fund_redemption_value :: 'a
  fund_stcg :: 'a
  fund_ltcg :: 'a
  total_gains :: 'a

text \<open>\<^verbatim>\<open>generate_fund_wise_report\<close>: the row of each fund name that occurs in the period
  table; the grouping drops the records without a fund name.\<close>

definition generate_fund_wise_report ::
  "(pyfloat list \<Rightarrow> 'a) \<Rightarrow> ('a \<Rightarrow> 'a \<Rightarrow> 'a) \<Rightarrow> transaction list \<Rightarrow> pystr \<Rightarrow> 'a fund_row option" where
  "generate_fund_wise_report colsum add period_df name =
     (let g = filter (\<lambda>t. fund_name t = Some name) period_df
      in if g = [] then None
         else Some \<lparr>number_of_transactions = length g,
                    fund_purchase_value = colsum (map purchase_value g),
                    fund_redemption_value = colsum (map redemption_value g),
                    fund_stcg = colsum (map stcg g),
                    fund_ltcg = colsum (map ltcg g),
                    total_gains = add (colsum (map stcg g)) (colsum (map ltcg g))\<rparr>)"

subsection \<open>Sample rows\<close>

text \<open>Rows of the layout the program reads, used to run the definitions: a fund header, a
  folio header, a redeemed holding with all thirteen columns, a shorter redeemed holding,
  and rows with one irregular cell each.\<close>

definition hdr_fund :: row where
  "hdr_fund = [Some (cps ''Fund A [ISIN:XX123] (Growth)'')]"

definition hdr_folio :: row where
  "hdr_folio = [None, Some (cps ''Folio No: 999'')]"

definition row_full :: row where
  "row_full =
     [Some (cps ''1''), Some (cps ''1,000.5''), Some (cps ''Aug 09, 2023''),
      Some (8377 # cps ''1,000''), Some (cps ''10.5''), None, None, None,
      Some (cps ''Jul 01, 2024''), Some (cps ''-''), Some (cps ''11''), Some (cps ''abc''),
      Some (cps ''5'')]"

definition row_nine :: row where
  "row_nine =
     [Some (cps ''2''), Some (cps ''3''), Some (cps ''09/08/2023''), None, None, None, None,
      None, Some (cps ''Aug 01, 2024'')]"

definition row_bad_units :: row where
  "row_bad_units = [Some (cps ''3''), Some (cps ''abc''), Some (cps ''2023-08-09'')]"

definition row_zero :: row where
  "row_zero = [Some (cps ''0''), None, Some (cps ''2023-08-09'')]"

definition row_one_column :: row where
  "row_one_column = [Some (cps ''4'')]"

definition row_negative_units :: row where
  "row_negative_units = [Some (cps ''5''), Some (cps ''-5''), Some (cps ''2023-08-09'')]"

definition row_nav_comma :: row where
  "row_nav_comma =
     [Some (cps ''6''), Some (cps ''2''), Some (cps ''2023-08-09''), None, Some (cps ''1,250.5'')]"

definition row_bad_redemption :: row where
  "row_bad_redemption =
     [Some (cps ''7''), Some (cps ''2''), Some (cps ''2023-08-09''), None, Some (cps ''10''),
      None, None, None, Some (cps ''garbage''), Some (cps ''100'')]"

definition row_no_date :: row where
  "row_no_date = [Some (cps ''8''), None, Some (cps ''garbage'')]"

text \<open>The records the sample rows give, under a fund name \<open>f\<close> and a folio number \<open>n\<close>.\<close>

definition sample_date :: datetime where
  "sample_date = \<lparr>dt_year = 2023, dt_month = 8, dt_day = 9\<rparr>"

definition tx_full :: "pystr option \<Rightarrow> pystr option \<Rightarrow> transaction" where
  "tx_full f n =
     \<lparr>fund_name = f, folio_number = n, transaction_number = 1, units = Fin (10005 / 10),
      purchase_date = Some sample_date, purchase_value = Fin 1000,
      purchase_nav = Fin (105 / 10),
      redemption_date = Some \<lparr>dt_year = 2024, dt_month = 7, dt_day = 1\<rparr>,
      redemption_value = Fin 0, redemption_nav = Fin 11, stcg = Fin 0, ltcg = Fin 5\<rparr>"

definition tx_nine :: "pystr option \<Rightarrow> pystr option \<Rightarrow> transaction" where
  "tx_nine f n =
     \<lparr>fund_name = f, folio_number = n, transaction_number = 2, units = Fin 3,
      purchase_date = Some sample_date, purchase_value = Fin 0, purchase_nav = Fin 0,
      redemption_date = Some \<lparr>dt_year = 2024, dt_month = 8, dt_day = 1\<rparr>,
      redemption_value = Fin 0, redemption_nav = Fin 0, stcg = Fin 0, ltcg = Fin 0\<rparr>"

definition tx_zero :: "pystr option \<Rightarrow> pystr option \<Rightarrow> transaction" where
  "tx_zero f n =
     \<lparr>fund_name = f, folio_number = n, transaction_number = 0, units = Fin 0,
      purchase_date = Some sample_date, purchase_value = Fin 0, purchase_nav = Fin 0,
      redemption_date = None,
      redemption_value = Fin 0, redemption_nav = Fin 0, stcg = Fin 0, ltcg = Fin 0\<rparr>"

definition tx_negative_units :: "pystr option \<Rightarrow> pystr option \<Rightarrow> transaction" where
  "tx_negative_units f n =
     \<lparr>fund_name = f, folio_number = n, transaction_number = 5, units = Fin (- 5),
      purchase_date = Some sample_date, purchase_value = Fin 0, purchase_nav = Fin 0,
      redemption_date = None,
      redemption_value = Fin 0, redemption_nav = Fin 0, stcg = Fin 0, ltcg = Fin 0\<rparr>"

definition tx_bad_redemption :: "pystr option \<Rightarrow> pystr option \<Rightarrow> transaction" where
  "tx_bad_redemption f n =
     \<lparr>fund_name = f, folio_number = n, transaction_number = 7, units = Fin 2,
      purchase_date = Some sample_date, purchase_value = Fin 0, purchase_nav = Fin 10,
      redemption_date = None,
      redemption_value = Fin 100, redemption_nav = Fin 0, stcg = Fin 0, ltcg = Fin 0\<rparr>"

section \<open>Running the definitions\<close>

lemma cps_Nil: "cps [] = []"
  by (simp add: cps_def)

lemma cps_Cons: "cps (c # s) = of_char c # cps s"
  by (simp add: cps_def)

lemmas str_eval = cps_Nil cps_Cons py_strip_def py_strip_chars_def strip_where_def py_isspace_def
  remove_char_def is_ascii_digit_def py_decimal_def py_isdecimal_def py_isdigit_cp_def
  py_isdigit_def to_ascii_def c_isspace_def digits_value_def split_sign_def ascii_lower_def

lemmas num_eval = py_int_def py_float_def parse_float_body_def parse_exponent_def scale10_def
  negate_def Let_def

lemmas date_eval = parse_date_def parse_date_io_def formats_def fmt_abbrev_def fmt_full_def
  fmt_slash_def fmt_iso_def fmt_hyphen_def strptime_def directive_re_def one_char_def
  two_chars_def in_range_def a_month_def f_month_def f_month_longest_first_def group_int_def
  group_month_def make_datetime_def days_in_month_def is_leap_def warning_line_def

lemmas row_eval = iloc_def row_str_def is_fund_header_def is_folio_header_def py_contains_def
  split_first_def split_second_def first_cell_number_def units_field_def
  purchase_date_field_def currency_field_def nav_field_def redemption_date_field_def
  build_transaction_def parse_currency_def is_transaction_data_def

lemmas tx_eval = sample_date_def tx_full_def tx_nine_def tx_zero_def tx_negative_units_def
  tx_bad_redemption_def

lemmas all_eval = str_eval num_eval date_eval row_eval tx_eval

lemma hdr_fund_eval:
  "is_fund_header hdr_fund"
  "py_strip (split_first (cps ''[ISIN:'') (row_str hdr_fund)) = cps ''Fund A''"
  by (simp_all add: hdr_fund_def all_eval)

lemma hdr_folio_eval:
  "\<not> is_fund_header hdr_folio" "is_folio_header hdr_folio"
  "py_strip (split_second (cps ''Folio No:'') (row_str hdr_folio)) = cps ''999''"
  by (simp_all add: hdr_folio_def all_eval)

lemma row_full_eval:
  "is_transaction_data row_full"
  "purchase_date_field row_full = Inr (Some sample_date)"
  "build_transaction st row_full = Inr (Some (tx_full (current_fund st) (current_folio st)))"
  by (simp_all add: row_full_def all_eval)

lemma row_nine_eval:
  "is_transaction_data row_nine"
  "build_transaction st row_nine = Inr (Some (tx_nine (current_fund st) (current_folio st)))"
  by (simp_all add: row_nine_def all_eval)

lemma row_bad_units_eval:
  "is_transaction_data row_bad_units"
  "purchase_date_field row_bad_units = Inr (Some sample_date)"
  "units_field row_bad_units = Inl ValueError"
  "build_transaction st row_bad_units = Inl ValueError"
  by (simp_all add: row_bad_units_def all_eval)

lemma row_zero_eval:
  "is_transaction_data row_zero"
  "build_transaction st row_zero = Inr (Some (tx_zero (current_fund st) (current_folio st)))"
  by (simp_all add: row_zero_def all_eval)

lemma row_one_column_eval:
  "is_transaction_data row_one_column"
  "build_transaction st row_one_column = Inl IndexError"
  by (simp_all add: row_one_column_def all_eval)

lemma row_negative_units_eval:
  "is_transaction_data row_negative_units"
  "build_transaction st row_negative_units =
     Inr (Some (tx_negative_units (current_fund st) (current_folio st)))"
  by (simp_all add: row_negative_units_def all_eval)

lemma row_nav_comma_eval:
  "is_transaction_data row_nav_comma"
  "purchase_date_field row_nav_comma = Inr (Some sample_date)"
  "units_field row_nav_comma = Inr (Fin 2)"
  "nav_field row_nav_comma 4 = Inl ValueError"
  "build_transaction st row_nav_comma = Inl ValueError"
  by (simp_all add: row_nav_comma_def all_eval)

lemma row_bad_redemption_eval:
  "is_transaction_data row_bad_redemption"
  "parse_date (py_strip (cps ''garbage'')) = None"
  "build_transaction st row_bad_redemption =
     Inr (Some (tx_bad_redemption (current_fund st) (current_folio st)))"
  by (simp_all add: row_bad_redemption_def all_eval)

lemma row_no_date_eval:
  "is_transaction_data row_no_date"
  "purchase_date_field row_no_date = Inr None"
  "build_transaction st row_no_date = Inr None"
  by (simp_all add: row_no_date_def all_eval)

section \<open>The scan, row by row\<close>

lemma scan_rows_Nil: "scan_rows st [] = st"
  by (simp add: scan_rows_def)

lemma scan_rows_Cons: "scan_rows st (r # rows) = scan_rows (process_row st r) rows"
  by (simp add: scan_rows_def)

lemma scan_rows_append: "scan_rows st (xs @ ys) = scan_rows (scan_rows st xs) ys"
  by (simp add: scan_rows_def)

lemma data_not_header:
  "is_transaction_data r \<Longrightarrow> \<not> is_fund_header r \<and> \<not> is_folio_header r"
  by (simp add: is_transaction_data_def)

lemma process_row_cases:
  "process_row st r = st\<lparr>current_fund := Some (py_strip (split_first (cps ''[ISIN:'') (row_str r)))\<rparr>
   \<or> process_row st r = st\<lparr>current_folio := Some (py_strip (split_second (cps ''Folio No:'') (row_str r)))\<rparr>
   \<or> process_row st r = st
   \<or> (\<exists>t. \<not> is_fund_header r \<and> \<not> is_folio_header r \<and> build_transaction st r = Inr (Some t)
          \<and> process_row st r = st\<lparr>transactions := transactions st @ [t]\<rparr>)"
  by (auto simp: process_row_def split: sum.splits option.splits error.splits)

lemma process_row_skip:
  assumes "\<not> is_fund_header r" "\<not> is_folio_header r" "\<And>t. build_transaction st r \<noteq> Inr (Some t)"
  shows "process_row st r = st"
  using assms by (auto simp: process_row_def split: sum.splits option.splits error.splits)

lemma process_row_append:
  assumes "\<not> is_fund_header r" "\<not> is_folio_header r" "build_transaction st r = Inr (Some t)"
  shows "process_row st r = st\<lparr>transactions := transactions st @ [t]\<rparr>"
  using assms by (simp add: process_row_def)

lemma process_row_data_append:
  assumes "is_transaction_data r" "build_transaction st r = Inr (Some t)"
  shows "process_row st r = st\<lparr>transactions := transactions st @ [t]\<rparr>"
  using assms by (simp add: process_row_append data_not_header)

lemma process_row_data_skip:
  assumes "is_transaction_data r" "build_transaction st r = Inl e \<or> build_transaction st r = Inr None"
  shows "process_row st r = st"
  using assms by (intro process_row_skip) (auto simp: data_not_header)

lemma scan_invariant:
  assumes "\<forall>t\<in>set (transactions st). P t"
    and "\<And>st' r t. r \<in> set rows \<Longrightarrow> is_transaction_data r \<Longrightarrow>
           build_transaction st' r = Inr (Some t) \<Longrightarrow> P t"
  shows "\<forall>t\<in>set (transactions (scan_rows st rows)). P t"
  using assms
proof (induction rows arbitrary: st)
  case Nil
  then show ?case by (simp add: scan_rows_Nil)
next
  case (Cons r rows)
  have data: "is_transaction_data r"
    if "\<not> is_fund_header r" "\<not> is_folio_header r" "build_transaction st r = Inr (Some t)" for t
    using that
    by (auto simp: is_transaction_data_def build_transaction_def first_cell_number_def
        split: sum.splits option.splits if_splits)
  have new: "P t"
    if "\<not> is_fund_header r" "\<not> is_folio_header r" "build_transaction st r = Inr (Some t)" for t
    using Cons.prems(2) [of r st t] data [OF that] that by simp
  have "\<forall>t\<in>set (transactions (process_row st r)). P t"
    using process_row_cases [of st r] Cons.prems(1) new by auto
  moreover have "\<And>st' r' t. r' \<in> set rows \<Longrightarrow> is_transaction_data r' \<Longrightarrow>
      build_transaction st' r' = Inr (Some t) \<Longrightarrow> P t"
    using Cons.prems(2) by (meson list.set_intros(2))
  ultimately have "\<forall>t\<in>set (transactions (scan_rows (process_row st r) rows)). P t"
    by (rule Cons.IH)
  then show ?case by (simp add: scan_rows_Cons)
qed

lemma parsed_invariant:
  assumes "parse_excel_data rows = Some txs"
    and "\<And>st' r t. r \<in> set rows \<Longrightarrow> is_transaction_data r \<Longrightarrow>
           build_transaction st' r = Inr (Some t) \<Longrightarrow> P t"
  shows "\<forall>t\<in>set txs. P t"
proof -
  from assms(1) have txs: "txs = transactions (scan_rows initial_state rows)"
    by (simp add: parse_excel_data_def Let_def split: if_splits)
  have "\<forall>t\<in>set (transactions (scan_rows initial_state rows)). P t"
    by (rule scan_invariant) (auto simp: initial_state_def intro: assms(2))
  with txs show ?thesis by simp
qed

lemma build_purchase_date:
  "build_transaction st r = Inr (Some t) \<Longrightarrow> purchase_date t \<noteq> None"
  by (auto simp: build_transaction_def split: sum.splits option.splits)

lemma build_needs_purchase_date:
  "build_transaction st r = Inr (Some t) \<Longrightarrow> \<exists>d. purchase_date_field r = Inr (Some d)"
  by (auto simp: build_transaction_def split: sum.splits option.splits)

section \<open>Claims\<close>

text \<open>C2. Every record the parser emits has a purchase date. A transaction-data row
  whose cell 2 gives no date (the cell is missing, blank, or fails every format) adds no
  record and leaves the scan state as it was, so the scan goes on with the next row: the
  result is the one of the grid without that row.\<close>

theorem C2_purchase_date_required:
  "(parse_excel_data rows = Some txs \<longrightarrow> (\<forall>t\<in>set txs. purchase_date t \<noteq> None)) \<and>
   (is_transaction_data r \<and> (\<forall>d. purchase_date_field r \<noteq> Inr (Some d)) \<longrightarrow>
      process_row st r = st \<and>
      parse_excel_data (pre @ r # post) = parse_excel_data (pre @ post))"
proof (intro conjI impI)
  assume "parse_excel_data rows = Some txs"
  then show "\<forall>t\<in>set txs. purchase_date t \<noteq> None"
    by (rule parsed_invariant) (auto dest: build_purchase_date)
next
  assume a: "is_transaction_data r \<and> (\<forall>d. purchase_date_field r \<noteq> Inr (Some d))"
  have skip: "process_row st' r = st'" for st'
    using a by (intro process_row_skip) (auto simp: data_not_header dest: build_needs_purchase_date)
  show "process_row st r = st" by (rule skip)
  show "parse_excel_data (pre @ r # post) = parse_excel_data (pre @ post)"
    by (simp add: parse_excel_data_def scan_rows_append scan_rows_Cons skip)
qed

theorem C2_purchase_date_required_witness:
  "parse_excel_data [row_zero] = Some [tx_zero None None] \<and>
   purchase_date (tx_zero None None) \<noteq> None \<and>
   is_transaction_data row_no_date \<and>
   (\<forall>d. purchase_date_field row_no_date \<noteq> Inr (Some d)) \<and>
   process_row initial_state row_no_date = initial_state \<and>
   parse_excel_data ([row_zero] @ row_no_date # [row_full]) =
     parse_excel_data ([row_zero] @ [row_full])"
proof -
  have p: "parse_excel_data [row_zero] = Some [tx_zero None None]"
    by (simp add: parse_excel_data_def scan_rows_Cons scan_rows_Nil initial_state_def
        process_row_data_append [OF row_zero_eval])
  have d: "is_transaction_data row_no_date \<and> (\<forall>d. purchase_date_field row_no_date \<noteq> Inr (Some d))"
    by (simp add: row_no_date_eval)
  note inst = C2_purchase_date_required [of "[row_zero]" "[tx_zero None None]" row_no_date
      initial_state "[row_zero]" "[row_full]"]
  from inst p have 1: "purchase_date (tx_zero None None) \<noteq> None"
    by (metis list.set_intros(1))
  from inst d have 2: "process_row initial_state row_no_date = initial_state"
    and 3: "parse_excel_data ([row_zero] @ row_no_date # [row_full]) =
              parse_excel_data ([row_zero] @ [row_full])"
    by blast+
  from p d 1 2 3 show ?thesis by blast
qed

lemma scan_no_fund_header:
  assumes "\<forall>r\<in>set rows. \<not> is_fund_header r"
  shows "current_fund (scan_rows st rows) = current_fund st \<and>
         (\<exists>new. transactions (scan_rows st rows) = transactions st @ new \<and>
                (\<forall>t\<in>set new. fund_name t = current_fund st))"
  using assms
proof (induction rows arbitrary: st)
  case Nil
  then show ?case by (simp add: scan_rows_Nil)
next
  case (Cons r rows)
  let ?st = "process_row st r"
  have nf: "\<not> is_fund_header r" using Cons.prems by simp
  have step: "current_fund ?st = current_fund st \<and>
        (\<exists>new. transactions ?st = transactions st @ new \<and> (\<forall>t\<in>set new. fund_name t = current_fund st))"
  proof (cases "is_folio_header r")
    case True
    then show ?thesis using nf by (simp add: process_row_def)
  next
    case False
    show ?thesis
    proof (cases "build_transaction st r")
      case (Inl e)
      then show ?thesis using nf False by (cases e) (simp_all add: process_row_def)
    next
      case (Inr res)
      show ?thesis
      proof (cases res)
        case None
        then show ?thesis using nf False Inr by (simp add: process_row_def)
      next
        case (Some t)
        have "fund_name t = current_fund st"
          using Inr Some by (auto simp: build_transaction_def split: sum.splits option.splits)
        then show ?thesis using nf False Inr Some by (simp add: process_row_def)
      qed
    qed
  qed
  from Cons.IH [of ?st] Cons.prems
  obtain new2 where n2: "current_fund (scan_rows ?st rows) = current_fund ?st"
      "transactions (scan_rows ?st rows) = transactions ?st @ new2"
      "\<forall>t\<in>set new2. fund_name t = current_fund ?st" by auto
  from step obtain new1 where n1: "current_fund ?st = current_fund st"
      "transactions ?st = transactions st @ new1" "\<forall>t\<in>set new1. fund_name t = current_fund st" by auto
  show ?case
    using n1 n2 by (auto simp: scan_rows_Cons intro!: exI [of _ "new1 @ new2"])
qed

lemma starts_with_split: "starts_with p t \<Longrightarrow> t = p @ drop (length p) t"
  by (induction p t rule: starts_with.induct) auto

lemma find_sub_split:
  "find_sub sep s = Some (before, after) \<Longrightarrow> s = before @ sep @ after"
proof (induction s arbitrary: before)
  case Nil
  then show ?case by simp
next
  case (Cons c cs)
  show ?case
  proof (cases "starts_with sep (c # cs)")
    case True
    then show ?thesis using Cons.prems starts_with_split [of sep "c # cs"] by simp
  next
    case False
    then show ?thesis using Cons by (auto split: option.splits)
  qed
qed

text \<open>C4. A row whose text contains the two fund markers is a fund header: the step
  sets \<open>current_fund\<close> to the stripped text before the first \<^verbatim>\<open>[ISIN:\<close> and does nothing
  else (no folio update, no record). Every record built from the rows that follow, up to
  the next fund header, carries that name.\<close>

theorem C4_fund_header_context:
  assumes "is_fund_header h"
  shows "process_row st h =
           st\<lparr>current_fund := Some (py_strip (split_first (cps ''[ISIN:'') (row_str h)))\<rparr> \<and>
         (\<exists>rest. row_str h = split_first (cps ''[ISIN:'') (row_str h) @ cps ''[ISIN:'' @ rest) \<and>
         ((\<forall>r\<in>set mid. \<not> is_fund_header r) \<longrightarrow>
            (\<forall>t\<in>set (drop (length (transactions st))
                          (transactions (scan_rows (process_row st h) mid))).
               fund_name t = Some (py_strip (split_first (cps ''[ISIN:'') (row_str h)))))"
proof (intro conjI impI)
  let ?name = "py_strip (split_first (cps ''[ISIN:'') (row_str h))"
  show p: "process_row st h = st\<lparr>current_fund := Some ?name\<rparr>"
    using assms by (simp add: process_row_def)
  from assms obtain b a where "find_sub (cps ''[ISIN:'') (row_str h) = Some (b, a)"
    by (auto simp: is_fund_header_def py_contains_def)
  then show "\<exists>rest. row_str h = split_first (cps ''[ISIN:'') (row_str h) @ cps ''[ISIN:'' @ rest"
    using find_sub_split [of "cps ''[ISIN:''" "row_str h" b a] by (auto simp: split_first_def)
  assume "\<forall>r\<in>set mid. \<not> is_fund_header r"
  from scan_no_fund_header [OF this, of "process_row st h"]
  show "\<forall>t\<in>set (drop (length (transactions st)) (transactions (scan_rows (process_row st h) mid))).
          fund_name t = Some ?name"
    by (auto simp: p)
qed

theorem C4_fund_header_context_witness:
  "is_fund_header hdr_fund \<and>
   process_row initial_state hdr_fund = initial_state\<lparr>current_fund := Some (cps ''Fund A'')\<rparr> \<and>
   \<not> is_fund_header hdr_folio \<and> \<not> is_fund_header row_full \<and>
   \<not> is_fund_header row_no_date \<and> \<not> is_fund_header row_nine \<and>
   transactions (scan_rows (process_row initial_state hdr_fund)
                   [hdr_folio, row_full, row_no_date, row_nine]) =
     [tx_full (Some (cps ''Fund A'')) (Some (cps ''999'')),
      tx_nine (Some (cps ''Fund A'')) (Some (cps ''999''))] \<and>
   fund_name (tx_full (Some (cps ''Fund A'')) (Some (cps ''999''))) = Some (cps ''Fund A'') \<and>
   fund_name (tx_nine (Some (cps ''Fund A'')) (Some (cps ''999''))) = Some (cps ''Fund A'')"
proof -
  let ?mid = "[hdr_folio, row_full, row_no_date, row_nine]"
  have h: "is_fund_header hdr_fund" by (rule hdr_fund_eval)
  have m: "\<not> is_fund_header hdr_folio \<and> \<not> is_fund_header row_full \<and>
           \<not> is_fund_header row_no_date \<and> \<not> is_fund_header row_nine"
    using hdr_folio_eval(1) data_not_header [OF row_full_eval(1)]
      data_not_header [OF row_no_date_eval(1)] data_not_header [OF row_nine_eval(1)]
    by simp
  then have m': "\<forall>r\<in>set ?mid. \<not> is_fund_header r" by simp
  note inst = C4_fund_header_context [OF h, of initial_state ?mid]
  from inst have p: "process_row initial_state hdr_fund =
      initial_state\<lparr>current_fund := Some (cps ''Fund A'')\<rparr>"
    by (simp add: hdr_fund_eval(2))
  have f: "process_row st hdr_folio = st\<lparr>current_folio := Some (cps ''999'')\<rparr>" for st
    using hdr_folio_eval by (simp add: process_row_def)
  have s: "transactions (scan_rows (process_row initial_state hdr_fund) ?mid) =
     [tx_full (Some (cps ''Fund A'')) (Some (cps ''999'')),
      tx_nine (Some (cps ''Fund A'')) (Some (cps ''999''))]"
    unfolding p
    by (simp add: scan_rows_Cons scan_rows_Nil f initial_state_def
        process_row_data_append [OF row_full_eval(1) row_full_eval(3)]
        process_row_data_append [OF row_nine_eval]
        process_row_data_skip [OF row_no_date_eval(1)] row_no_date_eval(3))
  from inst m' have "\<forall>t\<in>set (drop (length (transactions initial_state))
        (transactions (scan_rows (process_row initial_state hdr_fund) ?mid))).
      fund_name t = Some (cps ''Fund A'')"
    by (simp add: hdr_fund_eval(2))
  then have n: "fund_name (tx_full (Some (cps ''Fund A'')) (Some (cps ''999''))) = Some (cps ''Fund A'') \<and>
      fund_name (tx_nine (Some (cps ''Fund A'')) (Some (cps ''999''))) = Some (cps ''Fund A'')"
    unfolding s by (simp add: initial_state_def)
  from h p m s n show ?thesis by blast
qed

lemma dt_ge_iff: "dt_ge a b \<longleftrightarrow> \<not> dt_less a b"
  by (auto simp: dt_ge_def dt_less_def)

lemma redeemed_from_iff:
  "redemption_date t \<noteq> None \<Longrightarrow> redeemed_from t \<longleftrightarrow> \<not> redeemed_before t"
  by (auto simp: redeemed_from_def redeemed_before_def dt_ge_iff)

lemma after_filter:
  "filter redeemed_from (redeemed_transactions df) =
   filter (\<lambda>t. \<not> redeemed_before t) (redeemed_transactions df)"
  by (rule filter_cong) (auto simp: redeemed_transactions_def redeemed_from_iff)

text \<open>C5. When the analysis succeeds, the realized records are the records with a
  purchase date and a redemption date; the two period tables split them by the
  redemption date against 2024-07-23: each realized record is in exactly one table (as
  multisets the two tables add up to the realized records), the sizes add up, and the
  first table holds the redemption dates before the cutover, the second the others.\<close>

theorem C5_partition:
  assumes "analyze_transactions (Some df) = Inr (before, after)"
  shows "redeemed_transactions df =
           filter (\<lambda>t. purchase_date t \<noteq> None \<and> redemption_date t \<noteq> None) df \<and>
         length before + length after = length (redeemed_transactions df) \<and>
         mset before + mset after = mset (redeemed_transactions df) \<and>
         set before \<inter> set after = {} \<and>
         (\<forall>t\<in>set (redeemed_transactions df). (t \<in> set before) \<noteq> (t \<in> set after)) \<and>
         (\<forall>t\<in>set before. \<exists>d. redemption_date t = Some d \<and> dt_less d TAX_CHANGE_DATE) \<and>
         (\<forall>t\<in>set after. \<exists>d. redemption_date t = Some d \<and> \<not> dt_less d TAX_CHANGE_DATE)"
proof -
  let ?R = "redeemed_transactions df"
  from assms have b: "before = filter redeemed_before ?R"
    and a: "after = filter (\<lambda>t. \<not> redeemed_before t) ?R"
    by (auto simp: analyze_transactions_def after_filter split: if_splits)
  have 1: "?R = filter (\<lambda>t. purchase_date t \<noteq> None \<and> redemption_date t \<noteq> None) df"
    by (simp add: redeemed_transactions_def valid_transactions_def conj_commute)
  have 2: "length before + length after = length ?R"
    unfolding a b by (rule sum_length_filter_compl)
  have 3: "mset before + mset after = mset ?R"
    unfolding a b by simp
  have 4: "set before \<inter> set after = {}"
    unfolding a b by auto
  have 5: "\<forall>t\<in>set ?R. (t \<in> set before) \<noteq> (t \<in> set after)"
    unfolding a b by auto
  have 6: "\<forall>t\<in>set before. \<exists>d. redemption_date t = Some d \<and> dt_less d TAX_CHANGE_DATE"
    unfolding b by (auto simp: redeemed_before_def split: option.splits)
  have 7: "\<forall>t\<in>set after. \<exists>d. redemption_date t = Some d \<and> \<not> dt_less d TAX_CHANGE_DATE"
    unfolding a by (auto simp: redeemed_before_def redeemed_transactions_def split: option.splits)
  from 1 2 3 4 5 6 7 show ?thesis by blast
qed

theorem C5_partition_witness:
  "analyze_transactions (Some [tx_full None None, tx_zero None None, tx_nine None None]) =
     Inr ([tx_full None None], [tx_nine None None]) \<and>
   redeemed_transactions [tx_full None None, tx_zero None None, tx_nine None None] =
     [tx_full None None, tx_nine None None] \<and>
   length [tx_full None None] + length [tx_nine None None] =
     length (redeemed_transactions [tx_full None None, tx_zero None None, tx_nine None None]) \<and>
   set [tx_full None None] \<inter> set [tx_nine None None] = {}"
proof -
  have r: "redeemed_transactions [tx_full None None, tx_zero None None, tx_nine None None] =
     [tx_full None None, tx_nine None None]"
    by (simp add: redeemed_transactions_def valid_transactions_def tx_eval)
  have a: "analyze_transactions (Some [tx_full None None, tx_zero None None, tx_nine None None]) =
     Inr ([tx_full None None], [tx_nine None None])"
    apply (simp only: analyze_transactions_def option.case r)
    apply (simp add: valid_transactions_def redeemed_before_def redeemed_from_def dt_less_def
        dt_ge_def TAX_CHANGE_DATE_def tx_eval)
    done
  have l: "length [tx_full None None] + length [tx_nine None None] =
     length (redeemed_transactions [tx_full None None, tx_zero None None, tx_nine None None])"
    and d: "set [tx_full None None] \<inter> set [tx_nine None None] = {}"
    using C5_partition [OF a] by blast+
  from a r l d show ?thesis by blast
qed

text \<open>C7. \<^verbatim>\<open>parse_currency\<close> is a total function without console output. It maps the
  rupee amount \<^verbatim>\<open>1,23,456.78\<close> to 123456.78, the placeholder \<^verbatim>\<open>-\<close> and the empty string
  to 0.0; otherwise it removes the rupee sign, the commas and the double quotes, strips
  the rest and converts it, giving 0.0 whenever the conversion fails.\<close>

theorem C7_parse_currency:
  "parse_currency (8377 # cps ''1,23,456.78'') = Fin (12345678 / 100) \<and>
   parse_currency (cps ''-'') = Fin 0 \<and>
   parse_currency [] = Fin 0 \<and>
   (\<forall>s. py_float (py_strip (remove_char 34 (remove_char 44 (remove_char 8377 s)))) = None
        \<longrightarrow> parse_currency s = Fin 0) \<and>
   (\<forall>s v. s \<noteq> [] \<and> py_strip s \<noteq> cps ''-'' \<and> py_strip s \<noteq> [] \<and>
          py_float (py_strip (remove_char 34 (remove_char 44 (remove_char 8377 s)))) = Some v
        \<longrightarrow> parse_currency s = v)"
proof (intro conjI allI impI)
  show "parse_currency (8377 # cps ''1,23,456.78'') = Fin (12345678 / 100)"
    by (simp add: parse_currency_def str_eval num_eval)
  show "parse_currency (cps ''-'') = Fin 0"
    by (simp add: parse_currency_def str_eval)
  show "parse_currency [] = Fin 0"
    by (simp add: parse_currency_def)
next
  fix s
  assume "py_float (py_strip (remove_char 34 (remove_char 44 (remove_char 8377 s)))) = None"
  then show "parse_currency s = Fin 0"
    by (simp add: parse_currency_def Let_def)
next
  fix s v
  assume "s \<noteq> [] \<and> py_strip s \<noteq> cps ''-'' \<and> py_strip s \<noteq> [] \<and>
          py_float (py_strip (remove_char 34 (remove_char 44 (remove_char 8377 s)))) = Some v"
  then show "parse_currency s = v"
    by (simp add: parse_currency_def Let_def)
qed

theorem C7_parse_currency_witness:
  "py_float (py_strip (remove_char 34 (remove_char 44 (remove_char 8377 (cps ''abc''))))) = None \<and>
   parse_currency (cps ''abc'') = Fin 0 \<and>
   cps ''1,000'' \<noteq> [] \<and> py_strip (cps ''1,000'') \<noteq> cps ''-'' \<and> py_strip (cps ''1,000'') \<noteq> [] \<and>
   py_float (py_strip (remove_char 34 (remove_char 44 (remove_char 8377 (cps ''1,000''))))) =
     Some (Fin 1000) \<and>
   parse_currency (cps ''1,000'') = Fin 1000"
proof -
  have a: "py_float (py_strip (remove_char 34 (remove_char 44 (remove_char 8377 (cps ''abc''))))) = None"
    by (simp add: str_eval num_eval)
  have b: "cps ''1,000'' \<noteq> [] \<and> py_strip (cps ''1,000'') \<noteq> cps ''-'' \<and> py_strip (cps ''1,000'') \<noteq> [] \<and>
     py_float (py_strip (remove_char 34 (remove_char 44 (remove_char 8377 (cps ''1,000''))))) =
       Some (Fin 1000)"
    by (simp add: str_eval num_eval)
  from a C7_parse_currency have 1: "parse_currency (cps ''abc'') = Fin 0" by blast
  from b C7_parse_currency have 2: "parse_currency (cps ''1,000'') = Fin 1000" by blast
  from a b 1 2 show ?thesis by blast
qed

lemma try_formats_first:
  "k < length fs \<Longrightarrow> strptime t (fs ! k) = Some d \<Longrightarrow> \<forall>j<k. strptime t (fs ! j) = None
     \<Longrightarrow> try_formats t fs = Some d"
proof (induction fs arbitrary: k)
  case Nil
  then show ?case by simp
next
  case (Cons f fs)
  show ?case
  proof (cases k)
    case 0
    then show ?thesis using Cons.prems by simp
  next
    case (Suc k')
    have "strptime t f = None" using Cons.prems(3) Suc by auto
    moreover have "try_formats t fs = Some d"
      using Cons.prems Suc by (intro Cons.IH [of k']) auto
    ultimately show ?thesis by simp
  qed
qed

lemma try_formats_none:
  "\<forall>k<length fs. strptime t (fs ! k) = None \<Longrightarrow> try_formats t fs = None"
proof (induction fs)
  case Nil
  then show ?case by simp
next
  case (Cons f fs)
  have "strptime t f = None" using Cons.prems by auto
  moreover have "try_formats t fs = None"
    using Cons.prems by (intro Cons.IH) auto
  ultimately show ?case by simp
qed

lemma length_formats: "length formats = 5"
  by (simp add: formats_def)

text \<open>C3 as stated fails for the placeholder: \<^verbatim>\<open>-\<close> and the empty string match none of
  the five formats, and \<^verbatim>\<open>parse_date\<close> returns null for them without printing.\<close>

theorem C3_counterexample:
  "try_formats (cps ''-'') formats = None \<and> parse_date_io (cps ''-'') = (None, []) \<and>
   try_formats [] formats = None \<and> parse_date_io [] = (None, [])"
  by (simp add: str_eval num_eval date_eval)

text \<open>C3, amended. The formats are tried in the order abbreviated month, full month,
  day/month/year, year-month-day, day-month-year, on the stripped and unquoted text, and
  the first one that parses gives the result, with nothing printed. The three sample
  dates parse to 2023-08-09, the slash form day first. A string that is neither empty nor
  the placeholder \<^verbatim>\<open>-\<close> and matches no format gives null and one printed warning; the
  empty string and the placeholder give null and no warning.\<close>

theorem C3_parse_date:
  "formats = [fmt_abbrev, fmt_full, fmt_slash, fmt_iso, fmt_hyphen] \<and>
   (\<forall>s k d. s \<noteq> [] \<and> py_strip s \<noteq> cps ''-'' \<and> k < 5 \<and>
        strptime (py_strip_chars [34] (py_strip s)) (formats ! k) = Some d \<and>
        (\<forall>j<k. strptime (py_strip_chars [34] (py_strip s)) (formats ! j) = None)
      \<longrightarrow> parse_date_io s = (Some d, [])) \<and>
   (\<forall>s. s \<noteq> [] \<and> py_strip s \<noteq> cps ''-'' \<and>
        (\<forall>k<5. strptime (py_strip_chars [34] (py_strip s)) (formats ! k) = None)
      \<longrightarrow> parse_date_io s = (None, [warning_line (py_strip_chars [34] (py_strip s))])) \<and>
   (\<forall>s. s = [] \<or> py_strip s = cps ''-'' \<longrightarrow> parse_date_io s = (None, [])) \<and>
   parse_date (cps ''Aug 09, 2023'') = Some \<lparr>dt_year = 2023, dt_month = 8, dt_day = 9\<rparr> \<and>
   parse_date (cps ''09/08/2023'') = Some \<lparr>dt_year = 2023, dt_month = 8, dt_day = 9\<rparr> \<and>
   parse_date (cps ''2023-08-09'') = Some \<lparr>dt_year = 2023, dt_month = 8, dt_day = 9\<rparr>"
proof (intro conjI allI impI)
  show "formats = [fmt_abbrev, fmt_full, fmt_slash, fmt_iso, fmt_hyphen]"
    by (rule formats_def)
next
  fix s k d
  assume a: "s \<noteq> [] \<and> py_strip s \<noteq> cps ''-'' \<and> k < 5 \<and>
        strptime (py_strip_chars [34] (py_strip s)) (formats ! k) = Some d \<and>
        (\<forall>j<k. strptime (py_strip_chars [34] (py_strip s)) (formats ! j) = None)"
  then have "try_formats (py_strip_chars [34] (py_strip s)) formats = Some d"
    by (intro try_formats_first [of k]) (simp_all add: length_formats)
  with a show "parse_date_io s = (Some d, [])"
    by (simp add: parse_date_io_def Let_def)
next
  fix s
  assume a: "s \<noteq> [] \<and> py_strip s \<noteq> cps ''-'' \<and>
        (\<forall>k<5. strptime (py_strip_chars [34] (py_strip s)) (formats ! k) = None)"
  then have "try_formats (py_strip_chars [34] (py_strip s)) formats = None"
    by (intro try_formats_none) (simp add: length_formats)
  with a show "parse_date_io s = (None, [warning_line (py_strip_chars [34] (py_strip s))])"
    by (simp add: parse_date_io_def Let_def)
next
  fix s :: pystr
  assume "s = [] \<or> py_strip s = cps ''-''"
  then show "parse_date_io s = (None, [])"
    by (auto simp: parse_date_io_def)
next
  show "parse_date (cps ''Aug 09, 2023'') = Some \<lparr>dt_year = 2023, dt_month = 8, dt_day = 9\<rparr>"
    by (simp add: str_eval num_eval date_eval)
  show "parse_date (cps ''09/08/2023'') = Some \<lparr>dt_year = 2023, dt_month = 8, dt_day = 9\<rparr>"
    by (simp add: str_eval num_eval date_eval)
  show "parse_date (cps ''2023-08-09'') = Some \<lparr>dt_year = 2023, dt_month = 8, dt_day = 9\<rparr>"
    by (simp add: str_eval num_eval date_eval)
qed


theorem C3_parse_date_witness:
  "cps ''09/08/2023'' \<noteq> [] \<and> py_strip (cps ''09/08/2023'') \<noteq> cps ''-'' \<and>
   strptime (py_strip_chars [34] (py_strip (cps ''09/08/2023''))) (formats ! 0) = None \<and>
   strptime (py_strip_chars [34] (py_strip (cps ''09/08/2023''))) (formats ! 1) = None \<and>
   strptime (py_strip_chars [34] (py_strip (cps ''09/08/2023''))) (formats ! 2) =
     Some \<lparr>dt_year = 2023, dt_month = 8, dt_day = 9\<rparr> \<and>
   parse_date_io (cps ''09/08/2023'') = (Some \<lparr>dt_year = 2023, dt_month = 8, dt_day = 9\<rparr>, []) \<and>
   cps ''garbage'' \<noteq> [] \<and> py_strip (cps ''garbage'') \<noteq> cps ''-'' \<and>
   strptime (py_strip_chars [34] (py_strip (cps ''garbage''))) (formats ! 0) = None \<and>
   strptime (py_strip_chars [34] (py_strip (cps ''garbage''))) (formats ! 1) = None \<and>
   strptime (py_strip_chars [34] (py_strip (cps ''garbage''))) (formats ! 2) = None \<and>
   strptime (py_strip_chars [34] (py_strip (cps ''garbage''))) (formats ! 3) = None \<and>
   strptime (py_strip_chars [34] (py_strip (cps ''garbage''))) (formats ! 4) = None \<and>
   parse_date_io (cps ''garbage'') =
     (None, [cps ''Warning: Could not parse date '' @ [39] @ cps ''garbage'' @ [39]]) \<and>
   py_strip (cps '' - '') = cps ''-'' \<and>
   parse_date_io (cps '' - '') = (None, [])"
proof -
  let ?s = "cps ''09/08/2023''" and ?g = "cps ''garbage''"
  let ?d = "\<lparr>dt_year = 2023, dt_month = 8, dt_day = 9\<rparr>"
  have s: "?s \<noteq> [] \<and> py_strip ?s \<noteq> cps ''-''"
    by (simp add: str_eval)
  have s0: "strptime (py_strip_chars [34] (py_strip ?s)) (formats ! 0) = None"
    and s1: "strptime (py_strip_chars [34] (py_strip ?s)) (formats ! 1) = None"
    and s2: "strptime (py_strip_chars [34] (py_strip ?s)) (formats ! 2) = Some ?d"
    by (simp_all add: str_eval num_eval date_eval)
  have lt: "\<forall>j<2. strptime (py_strip_chars [34] (py_strip ?s)) (formats ! j) = None"
    using s0 s1 by (simp add: less_Suc_eq numeral_2_eq_2)
  have g: "?g \<noteq> [] \<and> py_strip ?g \<noteq> cps ''-''"
    by (simp add: str_eval)
  have g0: "strptime (py_strip_chars [34] (py_strip ?g)) (formats ! 0) = None"
    and g1: "strptime (py_strip_chars [34] (py_strip ?g)) (formats ! 1) = None"
    and g2: "strptime (py_strip_chars [34] (py_strip ?g)) (formats ! 2) = None"
    and g3: "strptime (py_strip_chars [34] (py_strip ?g)) (formats ! 3) = None"
    and g4: "strptime (py_strip_chars [34] (py_strip ?g)) (formats ! 4) = None"
    by (simp_all add: str_eval num_eval date_eval)
  have gall: "\<forall>k<5. strptime (py_strip_chars [34] (py_strip ?g)) (formats ! k) = None"
    using g0 g1 g2 g3 g4 by (simp add: less_Suc_eq eval_nat_numeral)
  have gs: "py_strip_chars [34] (py_strip ?g) = ?g"
    by (simp add: str_eval)
  have p: "py_strip (cps '' - '') = cps ''-''"
    by (simp add: str_eval)
  have "(2::nat) < 5" by simp
  with C3_parse_date s s2 lt have 1: "parse_date_io ?s = (Some ?d, [])"
    by blast
  from C3_parse_date g gall
  have "parse_date_io ?g = (None, [warning_line (py_strip_chars [34] (py_strip ?g))])"
    by blast
  then have 2: "parse_date_io ?g = (None, [cps ''Warning: Could not parse date '' @ [39] @ ?g @ [39]])"
    by (simp only: gs warning_line_def)
  from C3_parse_date p have 3: "parse_date_io (cps '' - '') = (None, [])"
    by blast
  from s s0 s1 s2 1 g g0 g1 g2 g3 g4 2 p 3 show ?thesis by blast
qed

lemma to_ascii_minus: "to_ascii c = 45 \<Longrightarrow> c = 45"
  by (auto simp: to_ascii_def split: if_splits option.splits)

lemma set_strip_where: "set (strip_where P s) \<subseteq> set s"
proof
  fix x
  assume "x \<in> set (strip_where P s)"
  then have "x \<in> set (dropWhile P (rev (dropWhile P s)))"
    by (simp add: strip_where_def)
  then have "x \<in> set (rev (dropWhile P s))" by (rule set_dropWhileD)
  then have "x \<in> set (dropWhile P s)" by simp
  then show "x \<in> set s" by (rule set_dropWhileD)
qed

lemma isdigit_int_nonneg:
  assumes "py_isdigit s" "py_int s = Some n"
  shows "0 \<le> n"
proof -
  let ?t = "strip_where c_isspace (map to_ascii s)"
  have no_minus: "45 \<notin> set ?t"
  proof
    assume "45 \<in> set ?t"
    then have "45 \<in> set (map to_ascii s)" using set_strip_where by blast
    then obtain c where c: "c \<in> set s" "to_ascii c = 45" by auto
    then have "c = 45" by (simp add: to_ascii_minus)
    moreover have "py_isdigit_cp c"
      using assms(1) c(1) by (simp add: py_isdigit_def list_all_iff)
    ultimately show False by (simp add: py_isdigit_cp_def is_ascii_digit_def)
  qed
  have "fst (split_sign ?t) = False"
    using no_minus by (cases ?t) (auto simp: split_sign_def)
  then show ?thesis
    using assms(2) by (auto simp: py_int_def Let_def split: prod.splits if_splits)
qed

lemma build_transaction_number:
  assumes "build_transaction st r = Inr (Some t)"
  shows "\<exists>s. r \<noteq> [] \<and> r ! 0 = Some s \<and> py_isdigit (py_strip s) \<and>
             py_int (py_strip s) = Some (transaction_number t)"
  using assms
  by (auto simp: build_transaction_def first_cell_number_def iloc_def
      split: sum.splits option.splits if_splits)

text \<open>C9 as stated fails for the ordinal 0: the cell \<^verbatim>\<open>0\<close> is all digits, so the row is
  admitted and its record has transaction number 0, which is not positive.\<close>

theorem C9_counterexample:
  "parse_excel_data [row_zero] = Some [tx_zero None None] \<and>
   transaction_number (tx_zero None None) = 0"
  by (simp add: parse_excel_data_def scan_rows_Cons scan_rows_Nil initial_state_def
      process_row_data_append [OF row_zero_eval] tx_zero_def)

text \<open>C9, amended. For every emitted record the transaction number is a non-negative
  integer: it is \<^verbatim>\<open>int\<close> of the stripped cell 0 of a transaction-data row of the grid,
  a row admitted because that cell is present and, stripped, consists of digit characters
  only.\<close>

theorem C9_transaction_number:
  assumes "parse_excel_data rows = Some txs"
  shows "\<forall>t\<in>set txs. 0 \<le> transaction_number t \<and>
           (\<exists>r\<in>set rows. \<exists>s. is_transaction_data r \<and> r \<noteq> [] \<and> r ! 0 = Some s \<and>
                py_isdigit (py_strip s) \<and> py_int (py_strip s) = Some (transaction_number t))"
  using assms
proof (rule parsed_invariant)
  fix st' r t
  assume r: "r \<in> set rows" "is_transaction_data r" "build_transaction st' r = Inr (Some t)"
  from build_transaction_number [OF r(3)] obtain s where
    s: "r \<noteq> []" "r ! 0 = Some s" "py_isdigit (py_strip s)"
       "py_int (py_strip s) = Some (transaction_number t)" by blast
  have "0 \<le> transaction_number t" using s(3,4) by (rule isdigit_int_nonneg)
  with r s show "0 \<le> transaction_number t \<and>
           (\<exists>r\<in>set rows. \<exists>s. is_transaction_data r \<and> r \<noteq> [] \<and> r ! 0 = Some s \<and>
                py_isdigit (py_strip s) \<and> py_int (py_strip s) = Some (transaction_number t))"
    by blast
qed

theorem C9_transaction_number_witness:
  "parse_excel_data [row_zero, row_full] = Some [tx_zero None None, tx_full None None] \<and>
   0 \<le> transaction_number (tx_zero None None) \<and>
   0 \<le> transaction_number (tx_full None None) \<and>
   transaction_number (tx_full None None) = 1 \<and>
   py_int (py_strip (cps ''1'')) = Some 1"
proof -
  have p: "parse_excel_data [row_zero, row_full] = Some [tx_zero None None, tx_full None None]"
    by (simp add: parse_excel_data_def scan_rows_Cons scan_rows_Nil initial_state_def
        process_row_data_append [OF row_zero_eval]
        process_row_data_append [OF row_full_eval(1) row_full_eval(3)])
  from C9_transaction_number [OF p]
  have 1: "0 \<le> transaction_number (tx_zero None None)"
    and 2: "0 \<le> transaction_number (tx_full None None)"
    by simp_all
  have 3: "transaction_number (tx_full None None) = 1"
    by (simp add: tx_full_def)
  have 4: "py_int (py_strip (cps ''1'')) = Some 1"
    by (simp add: str_eval num_eval)
  from p 1 2 3 4 show ?thesis by blast
qed

lemma build_transaction_ok:
  assumes "first_cell_number r = Inr (Some n)" "units_field r = Inr u"
    "purchase_date_field r = Inr (Some pd)" "nav_field r 4 = Inr pnav" "nav_field r 10 = Inr rnav"
  shows "build_transaction st r =
     Inr (Some \<lparr>fund_name = current_fund st, folio_number = current_folio st,
                transaction_number = n, units = u, purchase_date = Some pd,
                purchase_value = currency_field r 3, purchase_nav = pnav,
                redemption_date = redemption_date_field r,
                redemption_value = currency_field r 9, redemption_nav = rnav,
                stcg = currency_field r 11, ltcg = currency_field r 12\<rparr>)"
  using assms by (simp add: build_transaction_def)

lemma build_transaction_fields:
  assumes "build_transaction st r = Inr (Some t)"
  shows "units_field r = Inr (units t) \<and> nav_field r 4 = Inr (purchase_nav t) \<and>
         nav_field r 10 = Inr (redemption_nav t) \<and>
         purchase_value t = currency_field r 3 \<and> redemption_value t = currency_field r 9 \<and>
         stcg t = currency_field r 11 \<and> ltcg t = currency_field r 12 \<and>
         redemption_date t = redemption_date_field r \<and> 3 \<le> length r"
  using assms
  by (auto simp: build_transaction_def purchase_date_field_def iloc_def
      split: sum.splits option.splits if_splits)

lemma no_record_keeps_transactions:
  assumes "\<And>t. build_transaction st r \<noteq> Inr (Some t)"
  shows "transactions (process_row st r) = transactions st"
  using process_row_cases [of st r] assms by auto

lemma float_error_no_record:
  assumes "units_field r = Inl ValueError \<or> nav_field r 4 = Inl ValueError \<or>
           nav_field r 10 = Inl ValueError"
  shows "build_transaction st r \<noteq> Inr (Some t)"
  using assms build_transaction_fields [of st r t] by auto

lemma units_field_error:
  "1 < length r \<Longrightarrow> r ! 1 = Some s \<Longrightarrow> py_strip s \<noteq> [] \<Longrightarrow>
   py_float (remove_char 44 s) = None \<Longrightarrow> units_field r = Inl ValueError"
  by (simp add: units_field_def iloc_def)

lemma nav_field_error:
  "i < length r \<Longrightarrow> r ! i = Some s \<Longrightarrow> py_strip s \<noteq> [] \<Longrightarrow> py_float s = None \<Longrightarrow>
   nav_field r i = Inl ValueError"
  by (simp add: nav_field_def)

lemma currency_field_error:
  "i < length r \<Longrightarrow> r ! i = Some s \<Longrightarrow>
   py_float (py_strip (remove_char 34 (remove_char 44 (remove_char 8377 s)))) = None \<Longrightarrow>
   currency_field r i = Fin 0"
  by (simp add: currency_field_def parse_currency_def Let_def)

lemma row_full_fields:
  "first_cell_number row_full = Inr (Some 1)"
  "units_field row_full = Inr (Fin (10005 / 10))"
  "nav_field row_full 4 = Inr (Fin (105 / 10))"
  "nav_field row_full 10 = Inr (Fin 11)"
  "currency_field row_full 3 = Fin 1000"
  "currency_field row_full 9 = Fin 0"
  "currency_field row_full 11 = Fin 0"
  "currency_field row_full 12 = Fin 5"
  "redemption_date_field row_full = Some \<lparr>dt_year = 2024, dt_month = 7, dt_day = 1\<rparr>"
  by (simp_all add: row_full_def all_eval)

text \<open>C1 as stated fails for the float fields: in \<open>row_bad_units\<close> the purchase date
  parses and the units cell \<^verbatim>\<open>abc\<close> is malformed; \<^verbatim>\<open>float\<close> raises, the handler skips
  the row, and no record is emitted.\<close>

theorem C1_counterexample:
  "is_transaction_data row_bad_units \<and>
   purchase_date_field row_bad_units = Inr (Some sample_date) \<and>
   row_bad_units ! 1 = Some (cps ''abc'') \<and>
   py_float (remove_char 44 (cps ''abc'')) = None \<and>
   build_transaction initial_state row_bad_units = Inl ValueError \<and>
   process_row initial_state row_bad_units = initial_state \<and>
   parse_excel_data [row_bad_units] = None"
proof -
  have 1: "row_bad_units ! 1 = Some (cps ''abc'')" by (simp add: row_bad_units_def)
  have 2: "py_float (remove_char 44 (cps ''abc'')) = None" by (simp add: str_eval num_eval)
  have 3: "process_row st row_bad_units = st" for st
    by (rule process_row_data_skip [OF row_bad_units_eval(1)]) (simp add: row_bad_units_eval(4))
  have 4: "parse_excel_data [row_bad_units] = None"
    by (simp add: parse_excel_data_def scan_rows_Cons scan_rows_Nil 3 initial_state_def)
  from row_bad_units_eval 1 2 3 4 show ?thesis by blast
qed

text \<open>C1, amended. Take a transaction-data row whose purchase date parses. A format
  error in a currency cell gives that field 0.0 and does not stop the record: whenever
  cell 0 converts and the units and the two NAV cells convert (or are blank), the record
  is built and appended, its currency fields being the parsed or defaulted values. A
  format error in the units cell or in a NAV cell makes \<^verbatim>\<open>float\<close> raise
  \<^verbatim>\<open>ValueError\<close>; the handler catches it, the row is discarded, the scan state is
  unchanged and the scan goes on with the next row.\<close>

theorem C1_secondary_field_errors:
  assumes "is_transaction_data r" and "purchase_date_field r = Inr (Some pd)"
  shows
   "(\<forall>i s. i < length r \<and> r ! i = Some s \<and>
        py_float (py_strip (remove_char 34 (remove_char 44 (remove_char 8377 s)))) = None
      \<longrightarrow> currency_field r i = Fin 0) \<and>
    (\<forall>n u pnav rnav.
        first_cell_number r = Inr (Some n) \<and> units_field r = Inr u \<and>
        nav_field r 4 = Inr pnav \<and> nav_field r 10 = Inr rnav
      \<longrightarrow> process_row st r =
            st\<lparr>transactions := transactions st @
                 [\<lparr>fund_name = current_fund st, folio_number = current_folio st,
                   transaction_number = n, units = u, purchase_date = Some pd,
                   purchase_value = currency_field r 3, purchase_nav = pnav,
                   redemption_date = redemption_date_field r,
                   redemption_value = currency_field r 9, redemption_nav = rnav,
                   stcg = currency_field r 11, ltcg = currency_field r 12\<rparr>]\<rparr>) \<and>
    (\<forall>s. 1 < length r \<and> r ! 1 = Some s \<and> py_strip s \<noteq> [] \<and>
        py_float (remove_char 44 s) = None
      \<longrightarrow> units_field r = Inl ValueError) \<and>
    (\<forall>i s. i < length r \<and> r ! i = Some s \<and> py_strip s \<noteq> [] \<and> py_float s = None
      \<longrightarrow> nav_field r i = Inl ValueError) \<and>
    (units_field r = Inl ValueError \<or> nav_field r 4 = Inl ValueError \<or>
     nav_field r 10 = Inl ValueError
      \<longrightarrow> process_row st r = st \<and> scan_rows st (r # rest) = scan_rows st rest)"
proof (intro conjI allI impI)
  fix i s
  assume "i < length r \<and> r ! i = Some s \<and>
        py_float (py_strip (remove_char 34 (remove_char 44 (remove_char 8377 s)))) = None"
  then show "currency_field r i = Fin 0" by (simp add: currency_field_error)
next
  fix n u pnav rnav
  assume a: "first_cell_number r = Inr (Some n) \<and> units_field r = Inr u \<and>
        nav_field r 4 = Inr pnav \<and> nav_field r 10 = Inr rnav"
  show "process_row st r =
            st\<lparr>transactions := transactions st @
                 [\<lparr>fund_name = current_fund st, folio_number = current_folio st,
                   transaction_number = n, units = u, purchase_date = Some pd,
                   purchase_value = currency_field r 3, purchase_nav = pnav,
                   redemption_date = redemption_date_field r,
                   redemption_value = currency_field r 9, redemption_nav = rnav,
                   stcg = currency_field r 11, ltcg = currency_field r 12\<rparr>]\<rparr>"
    using a assms(2) by (intro process_row_data_append [OF assms(1)] build_transaction_ok) simp_all
next
  fix s
  assume "1 < length r \<and> r ! 1 = Some s \<and> py_strip s \<noteq> [] \<and> py_float (remove_char 44 s) = None"
  then show "units_field r = Inl ValueError" by (simp add: units_field_error)
next
  fix i s
  assume "i < length r \<and> r ! i = Some s \<and> py_strip s \<noteq> [] \<and> py_float s = None"
  then show "nav_field r i = Inl ValueError" by (simp add: nav_field_error)
next
  assume e: "units_field r = Inl ValueError \<or> nav_field r 4 = Inl ValueError \<or>
     nav_field r 10 = Inl ValueError"
  show skip: "process_row st r = st"
    using data_not_header [OF assms(1)] float_error_no_record [OF e]
    by (intro process_row_skip) auto
  show "scan_rows st (r # rest) = scan_rows st rest"
    by (simp add: scan_rows_Cons skip)
qed

theorem C1_secondary_field_errors_witness:
  "is_transaction_data row_full \<and> purchase_date_field row_full = Inr (Some sample_date) \<and>
   11 < length row_full \<and> row_full ! 11 = Some (cps ''abc'') \<and>
   py_float (py_strip (remove_char 34 (remove_char 44 (remove_char 8377 (cps ''abc''))))) = None \<and>
   currency_field row_full 11 = Fin 0 \<and>
   process_row initial_state row_full = initial_state\<lparr>transactions := [tx_full None None]\<rparr> \<and>
   stcg (tx_full None None) = Fin 0 \<and>
   is_transaction_data row_bad_units \<and>
   purchase_date_field row_bad_units = Inr (Some sample_date) \<and>
   1 < length row_bad_units \<and> row_bad_units ! 1 = Some (cps ''abc'') \<and>
   py_strip (cps ''abc'') \<noteq> [] \<and> py_float (remove_char 44 (cps ''abc'')) = None \<and>
   units_field row_bad_units = Inl ValueError \<and>
   process_row initial_state row_bad_units = initial_state \<and>
   scan_rows initial_state (row_bad_units # [row_full]) = scan_rows initial_state [row_full]"
proof -
  note full = C1_secondary_field_errors [OF row_full_eval(1) row_full_eval(2), of initial_state]
  note bad = C1_secondary_field_errors [OF row_bad_units_eval(1) row_bad_units_eval(2),
      of initial_state "[row_full]"]
  have c: "11 < length row_full \<and> row_full ! 11 = Some (cps ''abc'') \<and>
     py_float (py_strip (remove_char 34 (remove_char 44 (remove_char 8377 (cps ''abc''))))) = None"
    by (simp add: row_full_def str_eval num_eval)
  with full have 1: "currency_field row_full 11 = Fin 0" by blast
  from full row_full_fields(1-4)
  have "process_row initial_state row_full =
      initial_state\<lparr>transactions := transactions initial_state @
         [\<lparr>fund_name = current_fund initial_state, folio_number = current_folio initial_state,
           transaction_number = 1, units = Fin (10005 / 10), purchase_date = Some sample_date,
           purchase_value = currency_field row_full 3, purchase_nav = Fin (105 / 10),
           redemption_date = redemption_date_field row_full,
           redemption_value = currency_field row_full 9, redemption_nav = Fin 11,
           stcg = currency_field row_full 11, ltcg = currency_field row_full 12\<rparr>]\<rparr>"
    by blast
  then have 2: "process_row initial_state row_full =
      initial_state\<lparr>transactions := [tx_full None None]\<rparr>"
    by (simp add: row_full_fields initial_state_def tx_full_def)
  have 3: "stcg (tx_full None None) = Fin 0" by (simp add: tx_full_def)
  have u: "1 < length row_bad_units \<and> row_bad_units ! 1 = Some (cps ''abc'') \<and>
     py_strip (cps ''abc'') \<noteq> [] \<and> py_float (remove_char 44 (cps ''abc'')) = None"
    by (simp add: row_bad_units_def str_eval num_eval)
  with bad have 4: "units_field row_bad_units = Inl ValueError" by blast
  with bad have 5: "process_row initial_state row_bad_units = initial_state"
    and 6: "scan_rows initial_state (row_bad_units # [row_full]) = scan_rows initial_state [row_full]"
    by blast+
  from row_full_eval(1,2) row_bad_units_eval(1,2) c 1 2 3 u 4 5 6 show ?thesis by blast
qed

text \<open>C6 as stated fails in three ways: the units \<^verbatim>\<open>-5\<close> are accepted and stored as a
  negative number; the unparseable units \<^verbatim>\<open>abc\<close> do not become 0.0 but discard the row;
  and the NAV cell \<^verbatim>\<open>1,250.5\<close> is passed to \<^verbatim>\<open>float\<close> with its comma and discards the row
  as well.\<close>

theorem C6_counterexample:
  "parse_excel_data [row_negative_units] = Some [tx_negative_units None None] \<and>
   units (tx_negative_units None None) = Fin (- 5) \<and>
   row_bad_units ! 1 = Some (cps ''abc'') \<and>
   units_field row_bad_units = Inl ValueError \<and>
   parse_excel_data [row_bad_units] = None \<and>
   row_nav_comma ! 4 = Some (cps ''1,250.5'') \<and>
   nav_field row_nav_comma 4 = Inl ValueError \<and>
   parse_excel_data [row_nav_comma] = None"
proof -
  have 1: "parse_excel_data [row_negative_units] = Some [tx_negative_units None None]"
    by (simp add: parse_excel_data_def scan_rows_Cons scan_rows_Nil initial_state_def
        process_row_data_append [OF row_negative_units_eval])
  have 2: "units (tx_negative_units None None) = Fin (- 5)"
    by (simp add: tx_negative_units_def)
  have 3: "row_bad_units ! 1 = Some (cps ''abc'')" by (simp add: row_bad_units_def)
  have s1: "process_row st row_bad_units = st" for st
    by (rule process_row_data_skip [OF row_bad_units_eval(1)]) (simp add: row_bad_units_eval(4))
  have 4: "parse_excel_data [row_bad_units] = None"
    by (simp add: parse_excel_data_def scan_rows_Cons scan_rows_Nil s1 initial_state_def)
  have 5: "row_nav_comma ! 4 = Some (cps ''1,250.5'')" by (simp add: row_nav_comma_def)
  have s2: "process_row st row_nav_comma = st" for st
    by (rule process_row_data_skip [OF row_nav_comma_eval(1)]) (simp add: row_nav_comma_eval(5))
  have 6: "parse_excel_data [row_nav_comma] = None"
    by (simp add: parse_excel_data_def scan_rows_Cons scan_rows_Nil s2 initial_state_def)
  from 1 2 3 row_bad_units_eval(3) 4 5 row_nav_comma_eval(4) 6 show ?thesis by blast
qed

text \<open>C6, amended. The units cell is converted by \<^verbatim>\<open>float\<close> after its commas are
  removed; the units and the NAV fields are 0.0 when the cell is absent or blank. A
  record's units and NAV values are exactly what \<^verbatim>\<open>float\<close> returns, so the units may be
  negative. When \<^verbatim>\<open>float\<close> rejects the units text, or a NAV text without commas, the
  field is not defaulted: the row gives no record. (What a NAV text with commas does is
  left open here.)\<close>

theorem C6_numeric_fields:
  "(1 < length r \<and> r ! 1 = None \<longrightarrow> units_field r = Inr (Fin 0)) \<and>
   (\<forall>s. 1 < length r \<and> r ! 1 = Some s \<and> py_strip s = [] \<longrightarrow> units_field r = Inr (Fin 0)) \<and>
   (\<forall>s v. 1 < length r \<and> r ! 1 = Some s \<and> py_strip s \<noteq> [] \<and>
        py_float (remove_char 44 s) = Some v \<longrightarrow> units_field r = Inr v) \<and>
   (\<forall>s. 1 < length r \<and> r ! 1 = Some s \<and> py_strip s \<noteq> [] \<and>
        py_float (remove_char 44 s) = None
      \<longrightarrow> units_field r = Inl ValueError \<and>
          transactions (process_row st r) = transactions st) \<and>
   (\<forall>i. length r \<le> i \<or> i < length r \<and> r ! i = None \<longrightarrow> nav_field r i = Inr (Fin 0)) \<and>
   (\<forall>i s. i < length r \<and> r ! i = Some s \<and> py_strip s = [] \<longrightarrow> nav_field r i = Inr (Fin 0)) \<and>
   (\<forall>i s v. i < length r \<and> r ! i = Some s \<and> py_strip s \<noteq> [] \<and> 44 \<notin> set s \<and>
        py_float s = Some v \<longrightarrow> nav_field r i = Inr v) \<and>
   (\<forall>i s. (i = 4 \<or> i = 10) \<and> i < length r \<and> r ! i = Some s \<and> py_strip s \<noteq> [] \<and>
        44 \<notin> set s \<and> py_float s = None
      \<longrightarrow> nav_field r i = Inl ValueError \<and>
          transactions (process_row st r) = transactions st) \<and>
   (\<forall>t. build_transaction st r = Inr (Some t)
      \<longrightarrow> units_field r = Inr (units t) \<and> nav_field r 4 = Inr (purchase_nav t) \<and>
          nav_field r 10 = Inr (redemption_nav t))"
proof (intro conjI allI impI)
  assume "1 < length r \<and> r ! 1 = None"
  then show "units_field r = Inr (Fin 0)" by (simp add: units_field_def iloc_def)
next
  fix s
  assume "1 < length r \<and> r ! 1 = Some s \<and> py_strip s = []"
  then show "units_field r = Inr (Fin 0)" by (simp add: units_field_def iloc_def)
next
  fix s v
  assume "1 < length r \<and> r ! 1 = Some s \<and> py_strip s \<noteq> [] \<and> py_float (remove_char 44 s) = Some v"
  then show "units_field r = Inr v" by (simp add: units_field_def iloc_def)
next
  fix s
  assume a: "1 < length r \<and> r ! 1 = Some s \<and> py_strip s \<noteq> [] \<and>
        py_float (remove_char 44 s) = None"
  then show e: "units_field r = Inl ValueError" by (simp add: units_field_error)
  have "\<And>t. build_transaction st r \<noteq> Inr (Some t)"
    using float_error_no_record [of r st] e by blast
  then show "transactions (process_row st r) = transactions st"
    by (rule no_record_keeps_transactions)
next
  fix i
  assume "length r \<le> i \<or> i < length r \<and> r ! i = None"
  then show "nav_field r i = Inr (Fin 0)" by (auto simp: nav_field_def)
next
  fix i s
  assume "i < length r \<and> r ! i = Some s \<and> py_strip s = []"
  then show "nav_field r i = Inr (Fin 0)" by (simp add: nav_field_def)
next
  fix i s v
  assume "i < length r \<and> r ! i = Some s \<and> py_strip s \<noteq> [] \<and> 44 \<notin> set s \<and> py_float s = Some v"
  then show "nav_field r i = Inr v" by (simp add: nav_field_def)
next
  fix i s
  assume a: "(i = 4 \<or> i = 10) \<and> i < length r \<and> r ! i = Some s \<and> py_strip s \<noteq> [] \<and>
        44 \<notin> set s \<and> py_float s = None"
  then show e: "nav_field r i = Inl ValueError" by (simp add: nav_field_error)
  have "nav_field r 4 = Inl ValueError \<or> nav_field r 10 = Inl ValueError"
    using a e by auto
  then have "\<And>t. build_transaction st r \<noteq> Inr (Some t)"
    using float_error_no_record [of r st] by blast
  then show "transactions (process_row st r) = transactions st"
    by (rule no_record_keeps_transactions)
next
  fix t
  assume "build_transaction st r = Inr (Some t)"
  then show "units_field r = Inr (units t)" "nav_field r 4 = Inr (purchase_nav t)"
    "nav_field r 10 = Inr (redemption_nav t)"
    using build_transaction_fields [of st r t] by simp_all
qed

theorem C6_numeric_fields_witness:
  "1 < length row_full \<and> row_full ! 1 = Some (cps ''1,000.5'') \<and> py_strip (cps ''1,000.5'') \<noteq> [] \<and>
   py_float (remove_char 44 (cps ''1,000.5'')) = Some (Fin (10005 / 10)) \<and>
   units_field row_full = Inr (Fin (10005 / 10)) \<and>
   1 < length row_zero \<and> row_zero ! 1 = None \<and> units_field row_zero = Inr (Fin 0) \<and>
   1 < length row_bad_units \<and> row_bad_units ! 1 = Some (cps ''abc'') \<and>
   py_strip (cps ''abc'') \<noteq> [] \<and> py_float (remove_char 44 (cps ''abc'')) = None \<and>
   units_field row_bad_units = Inl ValueError \<and>
   transactions (process_row initial_state row_bad_units) = transactions initial_state \<and>
   4 < length row_full \<and> row_full ! 4 = Some (cps ''10.5'') \<and> py_strip (cps ''10.5'') \<noteq> [] \<and>
   44 \<notin> set (cps ''10.5'') \<and> py_float (cps ''10.5'') = Some (Fin (105 / 10)) \<and>
   nav_field row_full 4 = Inr (Fin (105 / 10)) \<and>
   length row_nine \<le> 10 \<and> nav_field row_nine 10 = Inr (Fin 0) \<and>
   build_transaction initial_state row_negative_units = Inr (Some (tx_negative_units None None)) \<and>
   units_field row_negative_units = Inr (Fin (- 5))"
proof -
  note c3 = C6_numeric_fields [THEN conjunct2, THEN conjunct2, THEN conjunct1, rule_format]
  note c1 = C6_numeric_fields [THEN conjunct1, rule_format]
  note c4 = C6_numeric_fields [THEN conjunct2, THEN conjunct2, THEN conjunct2, THEN conjunct1,
      rule_format]
  note c5 = C6_numeric_fields [THEN conjunct2, THEN conjunct2, THEN conjunct2, THEN conjunct2,
      THEN conjunct1, rule_format]
  note c7 = C6_numeric_fields [THEN conjunct2, THEN conjunct2, THEN conjunct2, THEN conjunct2,
      THEN conjunct2, THEN conjunct2, THEN conjunct1, rule_format]
  note c9 = C6_numeric_fields [THEN conjunct2, THEN conjunct2, THEN conjunct2, THEN conjunct2,
      THEN conjunct2, THEN conjunct2, THEN conjunct2, THEN conjunct2, rule_format]
  have a: "1 < length row_full \<and> row_full ! 1 = Some (cps ''1,000.5'') \<and>
      py_strip (cps ''1,000.5'') \<noteq> [] \<and>
      py_float (remove_char 44 (cps ''1,000.5'')) = Some (Fin (10005 / 10))"
    by (simp add: row_full_def str_eval num_eval)
  have 1: "units_field row_full = Inr (Fin (10005 / 10))" by (rule c3 [OF a])
  have b: "1 < length row_zero \<and> row_zero ! 1 = None" by (simp add: row_zero_def)
  have 2: "units_field row_zero = Inr (Fin 0)" by (rule c1 [OF b])
  have c: "1 < length row_bad_units \<and> row_bad_units ! 1 = Some (cps ''abc'') \<and>
     py_strip (cps ''abc'') \<noteq> [] \<and> py_float (remove_char 44 (cps ''abc'')) = None"
    by (simp add: row_bad_units_def str_eval num_eval)
  have 34: "units_field row_bad_units = Inl ValueError \<and>
     transactions (process_row initial_state row_bad_units) = transactions initial_state"
    by (rule c4 [OF c])
  have d: "4 < length row_full \<and> row_full ! 4 = Some (cps ''10.5'') \<and> py_strip (cps ''10.5'') \<noteq> [] \<and>
     44 \<notin> set (cps ''10.5'') \<and> py_float (cps ''10.5'') = Some (Fin (105 / 10))"
    by (simp add: row_full_def str_eval num_eval)
  have 5: "nav_field row_full 4 = Inr (Fin (105 / 10))" by (rule c7 [OF d])
  have e: "length row_nine \<le> 10" by (simp add: row_nine_def)
  have 6: "nav_field row_nine 10 = Inr (Fin 0)" by (rule c5 [OF disjI1 [OF e]])
  have f: "build_transaction initial_state row_negative_units =
      Inr (Some (tx_negative_units None None))"
    by (simp add: row_negative_units_eval(2) initial_state_def)
  have "units_field row_negative_units = Inr (units (tx_negative_units None None))"
    by (rule c9 [OF f, THEN conjunct1])
  then have 7: "units_field row_negative_units = Inr (Fin (- 5))"
    by (simp add: tx_negative_units_def)
  show ?thesis
    by (intro conjI a [THEN conjunct1] a [THEN conjunct2, THEN conjunct1]
        a [THEN conjunct2, THEN conjunct2, THEN conjunct1]
        a [THEN conjunct2, THEN conjunct2, THEN conjunct2] 1
        b [THEN conjunct1] b [THEN conjunct2] 2
        c [THEN conjunct1] c [THEN conjunct2, THEN conjunct1]
        c [THEN conjunct2, THEN conjunct2, THEN conjunct1]
        c [THEN conjunct2, THEN conjunct2, THEN conjunct2]
        34 [THEN conjunct1] 34 [THEN conjunct2]
        d [THEN conjunct1] d [THEN conjunct2, THEN conjunct1]
        d [THEN conjunct2, THEN conjunct2, THEN conjunct1]
        d [THEN conjunct2, THEN conjunct2, THEN conjunct2, THEN conjunct1]
        d [THEN conjunct2, THEN conjunct2, THEN conjunct2, THEN conjunct2] 5 e 6 f 7)
qed

lemma short_index_error:
  assumes "is_transaction_data r" "length r < 3"
  shows "build_transaction st r = Inl IndexError \<or> build_transaction st r = Inl ValueError"
proof -
  from assms(1) obtain s where s: "0 < length r" "r ! 0 = Some s" "py_isdigit (py_strip s)"
    by (auto simp: is_transaction_data_def iloc_def split: if_splits option.splits)
  have d: "purchase_date_field r = Inl IndexError"
    using assms(2) by (simp add: purchase_date_field_def iloc_def)
  have f: "first_cell_number r = Inl ValueError \<or> (\<exists>n. first_cell_number r = Inr (Some n))"
    using s by (auto simp: first_cell_number_def iloc_def split: option.splits)
  have u: "units_field r = Inl IndexError \<or> units_field r = Inl ValueError \<or>
           (\<exists>v. units_field r = Inr v)"
    by (auto simp: units_field_def iloc_def split: option.splits)
  from f u d show ?thesis
    by (auto simp: build_transaction_def)
qed

lemma no_index_error:
  assumes "3 \<le> length r"
  shows "build_transaction st r \<noteq> Inl IndexError"
proof -
  have 1: "first_cell_number r \<noteq> Inl IndexError"
    using assms by (auto simp: first_cell_number_def iloc_def split: option.splits)
  have 2: "units_field r \<noteq> Inl IndexError"
    using assms by (auto simp: units_field_def iloc_def split: option.splits)
  have 3: "purchase_date_field r \<noteq> Inl IndexError"
    using assms by (auto simp: purchase_date_field_def iloc_def Let_def)
  have 4: "nav_field r i \<noteq> Inl IndexError" for i
    by (auto simp: nav_field_def split: option.splits)
  from 1 2 3 4 [of 4] 4 [of 10] show ?thesis
    by (auto simp: build_transaction_def split: sum.splits option.splits)
qed

lemma short_row_defaults:
  "length r \<le> i \<Longrightarrow> currency_field r i = Fin 0"
  "length r \<le> i \<Longrightarrow> nav_field r i = Inr (Fin 0)"
  "length r \<le> 8 \<Longrightarrow> redemption_date_field r = None"
  by (simp_all add: currency_field_def nav_field_def redemption_date_field_def)

text \<open>C8 as stated fails for rows of one or two columns: in the one-column row
  \<open>row_one_column\<close> the read of cell 1 raises an indexing error instead of giving the
  units their default.\<close>

theorem C8_counterexample:
  "is_transaction_data row_one_column \<and> length row_one_column = 1 \<and>
   build_transaction initial_state row_one_column = Inl IndexError \<and>
   parse_excel_data [row_one_column] = None"
proof -
  have 1: "length row_one_column = 1" by (simp add: row_one_column_def)
  have s: "process_row st row_one_column = st" for st
    by (rule process_row_data_skip [OF row_one_column_eval(1)]) (simp add: row_one_column_eval(2))
  have 2: "parse_excel_data [row_one_column] = None"
    by (simp add: parse_excel_data_def scan_rows_Cons scan_rows_Nil s initial_state_def)
  from row_one_column_eval 1 2 show ?thesis by blast
qed

text \<open>C8, amended. For a row of at least three columns the body raises no indexing
  error, and in every record built each field whose column lies at or beyond the row's
  width has its default: 0.0 for the numeric fields, null for the redemption date; a row
  of three to twelve columns whose cell 0, units, purchase date and NAV cells convert
  does give a record. A transaction-data row of one or two columns raises
  \<^verbatim>\<open>IndexError\<close> at the unguarded read of cell 1 or cell 2 (or \<^verbatim>\<open>ValueError\<close> before
  that); the handler catches it and the row is discarded, the scan state unchanged.\<close>

theorem C8_short_rows:
  "(3 \<le> length r \<longrightarrow> build_transaction st r \<noteq> Inl IndexError) \<and>
   (\<forall>t. build_transaction st r = Inr (Some t) \<longrightarrow>
      3 \<le> length r \<and>
      (length r \<le> 3 \<longrightarrow> purchase_value t = Fin 0) \<and>
      (length r \<le> 4 \<longrightarrow> purchase_nav t = Fin 0) \<and>
      (length r \<le> 8 \<longrightarrow> redemption_date t = None) \<and>
      (length r \<le> 9 \<longrightarrow> redemption_value t = Fin 0) \<and>
      (length r \<le> 10 \<longrightarrow> redemption_nav t = Fin 0) \<and>
      (length r \<le> 11 \<longrightarrow> stcg t = Fin 0) \<and>
      (length r \<le> 12 \<longrightarrow> ltcg t = Fin 0)) \<and>
   (\<forall>n u pd pnav rnav.
      first_cell_number r = Inr (Some n) \<and> units_field r = Inr u \<and>
      purchase_date_field r = Inr (Some pd) \<and> nav_field r 4 = Inr pnav \<and>
      nav_field r 10 = Inr rnav
      \<longrightarrow> (\<exists>t. build_transaction st r = Inr (Some t))) \<and>
   (is_transaction_data r \<and> length r < 3 \<longrightarrow>
      (build_transaction st r = Inl IndexError \<or> build_transaction st r = Inl ValueError) \<and>
      process_row st r = st)"
proof (intro conjI allI impI)
  assume "3 \<le> length r"
  then show "build_transaction st r \<noteq> Inl IndexError" by (rule no_index_error)
next
  fix t
  assume b: "build_transaction st r = Inr (Some t)"
  note f = build_transaction_fields [OF b]
  show "3 \<le> length r" using f by simp
  { assume "length r \<le> 3" then show "purchase_value t = Fin 0"
      using f by (simp add: short_row_defaults) }
  { assume "length r \<le> 4" then show "purchase_nav t = Fin 0"
      using f by (simp add: short_row_defaults) }
  { assume "length r \<le> 8" then show "redemption_date t = None"
      using f by (simp add: short_row_defaults) }
  { assume "length r \<le> 9" then show "redemption_value t = Fin 0"
      using f by (simp add: short_row_defaults) }
  { assume "length r \<le> 10" then show "redemption_nav t = Fin 0"
      using f by (simp add: short_row_defaults) }
  { assume "length r \<le> 11" then show "stcg t = Fin 0"
      using f by (simp add: short_row_defaults) }
  { assume "length r \<le> 12" then show "ltcg t = Fin 0"
      using f by (simp add: short_row_defaults) }
next
  fix n u pd pnav rnav
  assume "first_cell_number r = Inr (Some n) \<and> units_field r = Inr u \<and>
      purchase_date_field r = Inr (Some pd) \<and> nav_field r 4 = Inr pnav \<and>
      nav_field r 10 = Inr rnav"
  then show "\<exists>t. build_transaction st r = Inr (Some t)"
    by (simp add: build_transaction_ok)
next
  assume a: "is_transaction_data r \<and> length r < 3"
  then show e: "build_transaction st r = Inl IndexError \<or> build_transaction st r = Inl ValueError"
    by (simp add: short_index_error)
  from a e data_not_header [of r] show "process_row st r = st"
    by (intro process_row_skip) auto
qed

theorem C8_short_rows_witness:
  "3 \<le> length row_nine \<and> build_transaction initial_state row_nine \<noteq> Inl IndexError \<and>
   build_transaction initial_state row_nine = Inr (Some (tx_nine None None)) \<and>
   length row_nine \<le> 9 \<and>
   redemption_value (tx_nine None None) = Fin 0 \<and> redemption_nav (tx_nine None None) = Fin 0 \<and>
   stcg (tx_nine None None) = Fin 0 \<and> ltcg (tx_nine None None) = Fin 0 \<and>
   length row_zero \<le> 3 \<and>
   build_transaction initial_state row_zero = Inr (Some (tx_zero None None)) \<and>
   purchase_value (tx_zero None None) = Fin 0 \<and> purchase_nav (tx_zero None None) = Fin 0 \<and>
   redemption_date (tx_zero None None) = None \<and>
   is_transaction_data row_one_column \<and> length row_one_column < 3 \<and>
   process_row initial_state row_one_column = initial_state"
proof -
  note n1 = C8_short_rows [of row_nine initial_state, THEN conjunct1, rule_format]
  note n2 = C8_short_rows [of row_nine initial_state, THEN conjunct2, THEN conjunct1, rule_format]
  note z2 = C8_short_rows [of row_zero initial_state, THEN conjunct2, THEN conjunct1, rule_format]
  note o4 = C8_short_rows [of row_one_column initial_state, THEN conjunct2, THEN conjunct2,
      THEN conjunct2, rule_format]
  have l9: "3 \<le> length row_nine" and l9': "length row_nine \<le> 9"
    and l9'': "length row_nine \<le> 10" "length row_nine \<le> 11" "length row_nine \<le> 12"
    by (simp_all add: row_nine_def)
  have b9: "build_transaction initial_state row_nine = Inr (Some (tx_nine None None))"
    by (simp add: row_nine_eval(2) initial_state_def)
  have lz: "length row_zero \<le> 3" "length row_zero \<le> 4" "length row_zero \<le> 8"
    by (simp_all add: row_zero_def)
  have bz: "build_transaction initial_state row_zero = Inr (Some (tx_zero None None))"
    by (simp add: row_zero_eval(2) initial_state_def)
  have lo: "length row_one_column < 3" by (simp add: row_one_column_def)
  have o: "is_transaction_data row_one_column \<and> length row_one_column < 3"
    using row_one_column_eval(1) lo by simp
  show ?thesis
    by (intro conjI l9 n1 [OF l9] b9 l9'
        n2 [OF b9, THEN conjunct2, THEN conjunct2, THEN conjunct2, THEN conjunct2,
          THEN conjunct1, rule_format, OF l9']
        n2 [OF b9, THEN conjunct2, THEN conjunct2, THEN conjunct2, THEN conjunct2,
          THEN conjunct2, THEN conjunct1, rule_format, OF l9''(1)]
        n2 [OF b9, THEN conjunct2, THEN conjunct2, THEN conjunct2, THEN conjunct2,
          THEN conjunct2, THEN conjunct2, THEN conjunct1, rule_format, OF l9''(2)]
        n2 [OF b9, THEN conjunct2, THEN conjunct2, THEN conjunct2, THEN conjunct2,
          THEN conjunct2, THEN conjunct2, THEN conjunct2, rule_format, OF l9''(3)]
        lz(1) bz
        z2 [OF bz, THEN conjunct2, THEN conjunct1, rule_format, OF lz(1)]
        z2 [OF bz, THEN conjunct2, THEN conjunct2, THEN conjunct1, rule_format, OF lz(2)]
        z2 [OF bz, THEN conjunct2, THEN conjunct2, THEN conjunct2, THEN conjunct1, rule_format,
          OF lz(3)]
        row_one_column_eval(1) lo o4 [OF o, THEN conjunct2])
qed

lemma unredeemed_excluded:
  assumes "redemption_date t = None"
  shows "redeemed_transactions (xs @ t # ys) = redeemed_transactions (xs @ ys)"
  using assms by (simp add: redeemed_transactions_def valid_transactions_def)

text \<open>C10. A row whose cell 8 is not blank but fails every date format is built exactly
  as if that cell were blank: the record, when the row gives one, has a null redemption
  date while its redemption value and gains are read from their cells as usual. Such a
  record is not a realized record, is in neither period table, and the analysis of a
  table with the record equals the analysis of the table without it; the summary and the
  fund-wise reports, which read the two period tables only, are the same as without the
  record.\<close>

theorem C10_unparseable_redemption_date:
  assumes "8 < length r" "r ! 8 = Some s" "py_strip s \<noteq> []" "parse_date (py_strip s) = None"
  shows "redemption_date_field r = None \<and>
         build_transaction st r = build_transaction st (r[8 := None]) \<and>
         (\<forall>t. build_transaction st r = Inr (Some t) \<longrightarrow>
            redemption_date t = None \<and>
            redemption_value t = currency_field r 9 \<and>
            stcg t = currency_field r 11 \<and> ltcg t = currency_field r 12 \<and>
            t \<notin> set (redeemed_transactions df) \<and>
            (\<forall>xs ys before after.
               analyze_transactions (Some (xs @ t # ys)) = Inr (before, after) \<longrightarrow>
                 t \<notin> set before \<and> t \<notin> set after \<and>
                 analyze_transactions (Some (xs @ ys)) = Inr (before, after) \<and>
                 (\<forall>before' after'.
                    analyze_transactions (Some (xs @ ys)) = Inr (before', after') \<longrightarrow>
                      generate_summary_report colsum add before after =
                        generate_summary_report colsum add before' after' \<and>
                      generate_fund_wise_report colsum add before =
                        generate_fund_wise_report colsum add before' \<and>
                      generate_fund_wise_report colsum add after =
                        generate_fund_wise_report colsum add after')))"
proof (intro conjI allI impI)
  show rd: "redemption_date_field r = None"
    using assms by (simp add: redemption_date_field_def)
  have 1: "first_cell_number (r[8 := None]) = first_cell_number r"
    and 2: "units_field (r[8 := None]) = units_field r"
    and 3: "purchase_date_field (r[8 := None]) = purchase_date_field r"
    using assms(1) by (simp_all add: first_cell_number_def units_field_def
        purchase_date_field_def iloc_def)
  have 4: "nav_field (r[8 := None]) i = nav_field r i" if "i \<noteq> 8" for i
    using that by (simp add: nav_field_def)
  have 5: "currency_field (r[8 := None]) i = currency_field r i" if "i \<noteq> 8" for i
    using that by (simp add: currency_field_def)
  have 6: "redemption_date_field (r[8 := None]) = None"
    using assms(1) by (simp add: redemption_date_field_def)
  show "build_transaction st r = build_transaction st (r[8 := None])"
    unfolding build_transaction_def 1 2 3 6 rd
      4 [of 4, simplified] 4 [of 10, simplified]
      5 [of 3, simplified] 5 [of 9, simplified] 5 [of 11, simplified] 5 [of 12, simplified]
    by (rule refl)
  fix t
  assume b: "build_transaction st r = Inr (Some t)"
  note f = build_transaction_fields [OF b]
  show n: "redemption_date t = None" using f rd by simp
  show "redemption_value t = currency_field r 9" "stcg t = currency_field r 11"
    "ltcg t = currency_field r 12" using f by simp_all
  show "t \<notin> set (redeemed_transactions df)"
    using n by (simp add: redeemed_transactions_def)
  fix xs ys before after
  assume a: "analyze_transactions (Some (xs @ t # ys)) = Inr (before, after)"
  have nb: "\<not> redeemed_before t" and nf: "\<not> redeemed_from t"
    using n by (simp_all add: redeemed_before_def redeemed_from_def)
  from a have ba: "before = filter redeemed_before (redeemed_transactions (xs @ t # ys))"
      "after = filter redeemed_from (redeemed_transactions (xs @ t # ys))"
      and ne: "redeemed_transactions (xs @ t # ys) \<noteq> []"
    by (auto simp: analyze_transactions_def split: if_splits)
  show "t \<notin> set before" using nb ba by simp
  show "t \<notin> set after" using nf ba by simp
  have r: "redeemed_transactions (xs @ t # ys) = redeemed_transactions (xs @ ys)"
    using n by (rule unredeemed_excluded)
  have v: "valid_transactions (xs @ ys) \<noteq> []"
    using ne r by (auto simp: redeemed_transactions_def)
  show same: "analyze_transactions (Some (xs @ ys)) = Inr (before, after)"
    using ba ne v by (simp add: analyze_transactions_def r)
  fix before' after'
  assume "analyze_transactions (Some (xs @ ys)) = Inr (before', after')"
  with same have e: "before' = before" "after' = after" by simp_all
  show "generate_summary_report colsum add before after =
          generate_summary_report colsum add before' after'"
    "generate_fund_wise_report colsum add before = generate_fund_wise_report colsum add before'"
    "generate_fund_wise_report colsum add after = generate_fund_wise_report colsum add after'"
    by (simp_all add: e)
qed

theorem C10_unparseable_redemption_date_witness:
  "8 < length row_bad_redemption \<and> row_bad_redemption ! 8 = Some (cps ''garbage'') \<and>
   py_strip (cps ''garbage'') \<noteq> [] \<and> parse_date (py_strip (cps ''garbage'')) = None \<and>
   build_transaction initial_state row_bad_redemption =
     Inr (Some (tx_bad_redemption None None)) \<and>
   redemption_date (tx_bad_redemption None None) = None \<and>
   redemption_value (tx_bad_redemption None None) = Fin 100 \<and>
   analyze_transactions
     (Some ([tx_full None None] @ tx_bad_redemption None None # [tx_nine None None])) =
     Inr ([tx_full None None], [tx_nine None None]) \<and>
   tx_bad_redemption None None \<notin> set [tx_full None None] \<and>
   tx_bad_redemption None None \<notin> set [tx_nine None None] \<and>
   analyze_transactions (Some ([tx_full None None] @ [tx_nine None None])) =
     Inr ([tx_full None None], [tx_nine None None])"
proof -
  have h1: "8 < length row_bad_redemption"
    and h2: "row_bad_redemption ! 8 = Some (cps ''garbage'')"
    by (simp_all add: row_bad_redemption_def)
  have h3: "py_strip (cps ''garbage'') \<noteq> []" by (simp add: str_eval)
  have h4: "parse_date (py_strip (cps ''garbage'')) = None" by (rule row_bad_redemption_eval(2))
  have b: "build_transaction initial_state row_bad_redemption =
      Inr (Some (tx_bad_redemption None None))"
    by (simp add: row_bad_redemption_eval(3) initial_state_def)
  note per_record = C10_unparseable_redemption_date [OF h1 h2 h3 h4, of initial_state,
      THEN conjunct2, THEN conjunct2, rule_format, OF b]
  have 1: "redemption_date (tx_bad_redemption None None) = None"
    by (rule per_record [THEN conjunct1])
  have 2: "redemption_value (tx_bad_redemption None None) = Fin 100"
    by (simp add: tx_bad_redemption_def)
  have r: "redeemed_transactions
      ([tx_full None None] @ tx_bad_redemption None None # [tx_nine None None]) =
      [tx_full None None, tx_nine None None]"
    by (simp add: redeemed_transactions_def valid_transactions_def tx_eval)
  have a: "analyze_transactions
     (Some ([tx_full None None] @ tx_bad_redemption None None # [tx_nine None None])) =
     Inr ([tx_full None None], [tx_nine None None])"
    apply (simp only: analyze_transactions_def option.case r)
    apply (simp add: valid_transactions_def redeemed_before_def redeemed_from_def dt_less_def
        dt_ge_def TAX_CHANGE_DATE_def tx_eval)
    done
  note per_table = per_record [THEN conjunct2, THEN conjunct2, THEN conjunct2, THEN conjunct2,
      THEN conjunct2, rule_format, OF a]
  show ?thesis
    by (intro conjI h1 h2 h3 h4 b 1 2 a per_table [THEN conjunct1]
        per_table [THEN conjunct2, THEN conjunct1]
        per_table [THEN conjunct2, THEN conjunct2, THEN conjunct1])
qed

end
